theory Spec2Isabelle
  imports Main "HOL-Library.Log_Nat"
begin

section \<open>JavaScript values of the review handlers\<close>

text \<open>
  The development embeds the Cloud Functions of \<^verbatim>\<open>functions/index.js\<close> (the server
  handlers \<^verbatim>\<open>getReviews\<close>, \<^verbatim>\<open>submitReview\<close>, \<^verbatim>\<open>upvoteReview\<close>, \<^verbatim>\<open>reportReview\<close>,
  \<^verbatim>\<open>getCourseStats\<close>) and the client service \<^verbatim>\<open>services/reviewService\<close>
  (\<^verbatim>\<open>getReviewsByCourse\<close>, \<^verbatim>\<open>submitReview\<close>, \<^verbatim>\<open>upvoteReview\<close>, \<^verbatim>\<open>reportReview\<close>).
  The client functions carry the prefix \<open>svc_\<close> where their name is also a server name.

  The request body is typed as the handler's own comment types it: \<^verbatim>\<open>courseCode\<close>,
  \<^verbatim>\<open>reviewText\<close> and the other texts are strings, the ratings are numbers,
  \<^verbatim>\<open>isAnonymous\<close> is a boolean. A field is an \<open>option\<close>: \<open>None\<close> is a field that
  is \<^verbatim>\<open>undefined\<close> or \<^verbatim>\<open>null\<close> (every test the code makes on these fields treats the
  two alike).

  A number is written as the integer it denotes: the ratings of the form are \<open>0..5\<close>,
  and on integral doubles of magnitude below \<open>2^53\<close> the operations used here
  (\<^verbatim>\<open><\<close>, \<^verbatim>\<open>></\<close>, \<^verbatim>\<open>+\<close>, \<^verbatim>\<open>parseInt\<close>, truthiness) are exact. Quotients are doubles and
  are modelled as such below. A string is its list of code units; the embedding covers
  code units below 256.

  A handler is modelled from the point where it has its arguments: the dispatch on the
  HTTP method (405), CORS and the splitting of the path are not part of the embedding,
  and the store of the model raises no exception of its own (the 500 answers).
\<close>

text \<open>Truthiness: \<^verbatim>\<open>undefined\<close>, \<^verbatim>\<open>null\<close>, \<^verbatim>\<open>""\<close>, \<^verbatim>\<open>0\<close> and \<^verbatim>\<open>false\<close> are falsy.\<close>

definition truthy_str :: "string option \<Rightarrow> bool" where
  "truthy_str x = (case x of None \<Rightarrow> False | Some s \<Rightarrow> s \<noteq> [])"

definition truthy_num :: "int option \<Rightarrow> bool" where
  "truthy_num x = (case x of None \<Rightarrow> False | Some n \<Rightarrow> n \<noteq> 0)"

definition truthy_bool :: "bool option \<Rightarrow> bool" where
  "truthy_bool x = (case x of None \<Rightarrow> False | Some b \<Rightarrow> b)"

text \<open>\<^verbatim>\<open>x || ""\<close> on a string field.\<close>

definition or_str :: "string option \<Rightarrow> string \<Rightarrow> string" where
  "or_str x d = (case x of None \<Rightarrow> d | Some s \<Rightarrow> if s = [] then d else s)"

text \<open>\<^verbatim>\<open>parseInt(n)\<close> of an integral number prints it in decimal digits and reads it back.\<close>

definition parseInt :: "int \<Rightarrow> int" where
  "parseInt n = n"

text \<open>
  \<^verbatim>\<open>String.prototype.trim\<close> strips white space and line terminators from both ends:
  TAB, LF, VT, FF, CR, SP and NBSP among the code units below 256.
\<close>

definition isWhiteSpace :: "char \<Rightarrow> bool" where
  "isWhiteSpace c = (c \<in> set [CHR 0x09, CHR 0x0A, CHR 0x0B, CHR 0x0C, CHR 0x0D, CHR 0x20, CHR 0xA0])"

definition trim :: "string \<Rightarrow> string" where
  "trim s = rev (dropWhile isWhiteSpace (rev (dropWhile isWhiteSpace s)))"

section \<open>Data model\<close>

text \<open>The body of a submission (\<^verbatim>\<open>req.body\<close> on the server, the argument of the client).\<close>

record reviewData =
  courseCode :: "string option"
  courseName :: "string option"
  collegeCode :: "string option"
  subjectCode :: "string option"
  courseNumber :: "string option"
  rating :: "int option"
  reviewText :: "string option"
  difficultyRating :: "int option"
  workloadRating :: "int option"
  profHelpfulnessRating :: "int option"
  semesterTaken :: "string option"
  authorName :: "string option"
  authorEmail :: "string option"
  isAnonymous :: "bool option"

text \<open>
  The persisted document. \<open>None\<close> in an optional rating or in \<open>authorEmail\<close> is the stored
  \<^verbatim>\<open>null\<close>. The server always stores a name; the client stores \<^verbatim>\<open>reviewData.authorName\<close>
  as it came, so the field is an option as well. The two timestamps are the server time
  of the write.
\<close>

record review =
  courseCode :: string
  courseName :: string
  collegeCode :: string
  subjectCode :: string
  courseNumber :: string
  rating :: int
  reviewText :: string
  difficultyRating :: "int option"
  workloadRating :: "int option"
  profHelpfulnessRating :: "int option"
  semesterTaken :: string
  authorEmail :: "string option"
  isAnonymous :: bool
  authorName :: "string option"
  createdAt :: nat
  updatedAt :: nat
  verified :: bool
  helpfulVotes :: nat
  totalVotes :: nat
  reportedCount :: nat

text \<open>
  The failures of the handlers, by the kind the specification gives them:
  \<^item> \<open>MissingField\<close>: 400 \<^verbatim>\<open>courseCode is required\<close>, 400 \<^verbatim>\<open>reviewId is required\<close>;
    in the client \<^verbatim>\<open>Missing required fields: courseCode, rating, or reviewText\<close>;
  \<^item> \<open>InvalidRating\<close>: 400 \<^verbatim>\<open>rating must be between 1 and 5\<close>;
  \<^item> \<open>InvalidReviewText\<close>: 400 \<^verbatim>\<open>reviewText is required and must be at least 20 characters\<close>;
  \<^item> \<open>NotFound\<close>: 404 \<^verbatim>\<open>Review not found\<close>;
  \<^item> \<open>StoreFailure\<close>: an exception of the store; in the client the errors
    \<^verbatim>\<open>Failed to upvote review\<close> and \<^verbatim>\<open>Failed to report review\<close> that replace it.
\<close>

datatype error = MissingField | InvalidRating | InvalidReviewText | NotFound | StoreFailure

section \<open>The document store\<close>

text \<open>
  Modelled from the spec: the persistence boundary of section 6, the Firestore collection
  \<^verbatim>\<open>reviews\<close> behind \<^verbatim>\<open>db\<close>, whose code is not part of the repository. It offers the
  insertion of a document under a generated id, the read and the update of a document by
  its id, the equality filter on \<^verbatim>\<open>courseCode\<close> and the descending order by
  \<^verbatim>\<open>helpfulVotes\<close>. The collection is the list of its documents with their ids, in
  insertion order. The store generates the id of a new document and the time of a write;
  both are arguments of the operations that write.
\<close>

type_synonym db = "(string \<times> review) list"

definition add :: "db \<Rightarrow> string \<Rightarrow> review \<Rightarrow> db" where
  "add db newId r = db @ [(newId, r)]"

definition get :: "db \<Rightarrow> string \<Rightarrow> review option" where
  "get db reviewId = map_of db reviewId"

text \<open>
  \<^verbatim>\<open>update\<close> changes the fields of an existing document, here by a function on the
  document (\<^verbatim>\<open>increment(1)\<close> on a counter, the server time on \<^verbatim>\<open>updatedAt\<close>); as
  Firestore does, the store rejects the update of a document that does not exist.
\<close>

definition update :: "db \<Rightarrow> string \<Rightarrow> (review \<Rightarrow> review) \<Rightarrow> db option" where
  "update db reviewId f =
     (case map_of db reviewId of
        None \<Rightarrow> None
      | Some _ \<Rightarrow> Some (map (\<lambda>(k, r). if k = reviewId then (k, f r) else (k, r)) db))"

definition where_courseCode :: "db \<Rightarrow> string \<Rightarrow> (string \<times> review) list" where
  "where_courseCode db code = filter (\<lambda>(k, r). courseCode r = code) db"

text \<open>
  \<^verbatim>\<open>orderBy("helpfulVotes", "desc")\<close>. The order among reviews with equal votes is the
  store's own; no statement below depends on it.
\<close>

definition orderBy_helpfulVotes_desc :: "(string \<times> review) list \<Rightarrow> (string \<times> review) list" where
  "orderBy_helpfulVotes_desc snapshot = rev (sort_key (\<lambda>(k, r). helpfulVotes r) snapshot)"

section \<open>Submitting a review\<close>

subsection \<open>Server: \<^verbatim>\<open>exports.submitReview\<close>\<close>

definition reviewToSubmit :: "nat \<Rightarrow> string \<Rightarrow> int \<Rightarrow> string \<Rightarrow> reviewData \<Rightarrow> review" where
  "reviewToSubmit now code r text d =
     \<lparr> courseCode = code,
       courseName = or_str (reviewData.courseName d) [],
       collegeCode = or_str (reviewData.collegeCode d) [],
       subjectCode = or_str (reviewData.subjectCode d) [],
       courseNumber = or_str (reviewData.courseNumber d) [],
       rating = parseInt r,
       reviewText = trim text,
       difficultyRating =
         (if truthy_num (reviewData.difficultyRating d)
          then map_option parseInt (reviewData.difficultyRating d) else None),
       workloadRating =
         (if truthy_num (reviewData.workloadRating d)
          then map_option parseInt (reviewData.workloadRating d) else None),
       profHelpfulnessRating =
         (if truthy_num (reviewData.profHelpfulnessRating d)
          then map_option parseInt (reviewData.profHelpfulnessRating d) else None),
       semesterTaken = or_str (reviewData.semesterTaken d) [],
       authorEmail =
         (if truthy_bool (reviewData.isAnonymous d) \<or> \<not> truthy_str (reviewData.authorEmail d)
          then None else reviewData.authorEmail d),
       isAnonymous = (reviewData.isAnonymous d \<noteq> Some False),
       authorName =
         (if truthy_bool (reviewData.isAnonymous d) then Some ''Anonymous''
          else Some (or_str (reviewData.authorName d) ''Anonymous'')),
       createdAt = now,
       updatedAt = now,
       verified = False,
       helpfulVotes = 0,
       totalVotes = 0,
       reportedCount = 0 \<rparr>"

text \<open>
  The three checks in their order, each with its early return; the document is written
  only after all three have passed. The result is the error or the id of the new review.
\<close>

definition submitReview :: "db \<Rightarrow> string \<Rightarrow> nat \<Rightarrow> reviewData \<Rightarrow> (error + string) \<times> db" where
  "submitReview db newId now d =
     (case reviewData.courseCode d of
        None \<Rightarrow> (Inl MissingField, db)
      | Some code \<Rightarrow>
          if code = [] then (Inl MissingField, db)
          else (case reviewData.rating d of
             None \<Rightarrow> (Inl InvalidRating, db)
           | Some r \<Rightarrow>
               if r = 0 \<or> r < 1 \<or> r > 5 then (Inl InvalidRating, db)
               else (case reviewData.reviewText d of
                  None \<Rightarrow> (Inl InvalidReviewText, db)
                | Some text \<Rightarrow>
                    if text = [] \<or> length (trim text) < 20 then (Inl InvalidReviewText, db)
                    else (Inr newId, add db newId (reviewToSubmit now code r text d)))))"

subsection \<open>Client: \<^verbatim>\<open>submitReview\<close> of the review service\<close>

definition svc_reviewToSubmit :: "nat \<Rightarrow> string \<Rightarrow> int \<Rightarrow> string \<Rightarrow> reviewData \<Rightarrow> review" where
  "svc_reviewToSubmit now code r text d =
     \<lparr> courseCode = code,
       courseName = or_str (reviewData.courseName d) [],
       collegeCode = or_str (reviewData.collegeCode d) [],
       subjectCode = or_str (reviewData.subjectCode d) [],
       courseNumber = or_str (reviewData.courseNumber d) [],
       rating = r,
       reviewText = text,
       difficultyRating =
         (if truthy_num (reviewData.difficultyRating d) then reviewData.difficultyRating d else None),
       workloadRating =
         (if truthy_num (reviewData.workloadRating d) then reviewData.workloadRating d else None),
       profHelpfulnessRating =
         (if truthy_num (reviewData.profHelpfulnessRating d)
          then reviewData.profHelpfulnessRating d else None),
       semesterTaken = or_str (reviewData.semesterTaken d) [],
       authorEmail =
         (if truthy_bool (reviewData.isAnonymous d) then None else reviewData.authorEmail d),
       isAnonymous =
         (if truthy_bool (reviewData.isAnonymous d) then truthy_bool (reviewData.isAnonymous d)
          else True),
       authorName =
         (if truthy_bool (reviewData.isAnonymous d) then Some ''Anonymous''
          else reviewData.authorName d),
       createdAt = now,
       updatedAt = now,
       verified = False,
       helpfulVotes = 0,
       totalVotes = 0,
       reportedCount = 0 \<rparr>"

text \<open>
  The client first tests the three required fields together, then the range of the
  rating, then the length of the text as it is (no \<^verbatim>\<open>trim\<close>). Each failure is a thrown
  \<^verbatim>\<open>Error\<close>, which the \<^verbatim>\<open>catch\<close> logs and throws again.
\<close>

definition svc_submitReview :: "db \<Rightarrow> string \<Rightarrow> nat \<Rightarrow> reviewData \<Rightarrow> (error + string) \<times> db" where
  "svc_submitReview db newId now d =
     (if \<not> truthy_str (reviewData.courseCode d) \<or> \<not> truthy_num (reviewData.rating d)
         \<or> \<not> truthy_str (reviewData.reviewText d)
      then (Inl MissingField, db)
      else (case (reviewData.courseCode d, reviewData.rating d, reviewData.reviewText d) of
         (Some code, Some r, Some text) \<Rightarrow>
           if r < 1 \<or> r > 5 then (Inl InvalidRating, db)
           else if length text < 20 then (Inl InvalidReviewText, db)
           else (Inr newId, add db newId (svc_reviewToSubmit now code r text d))
       | _ \<Rightarrow> (Inl MissingField, db)))"

section \<open>Votes and reports\<close>

subsection \<open>Server: \<^verbatim>\<open>exports.upvoteReview\<close> and \<^verbatim>\<open>exports.reportReview\<close>\<close>

text \<open>
  The handler reads the document, answers 404 when it does not exist, and otherwise
  increments both vote counters and refreshes \<^verbatim>\<open>updatedAt\<close> in one update; it then reads
  the document again and returns the two counters.
\<close>

definition upvoteReview :: "db \<Rightarrow> string \<Rightarrow> nat \<Rightarrow> (error + nat \<times> nat) \<times> db" where
  "upvoteReview db reviewId now =
     (if reviewId = [] then (Inl MissingField, db)
      else (case get db reviewId of
         None \<Rightarrow> (Inl NotFound, db)
       | Some doc \<Rightarrow>
           (case update db reviewId
                   (\<lambda>r. r\<lparr>helpfulVotes := helpfulVotes r + 1, totalVotes := totalVotes r + 1,
                           updatedAt := now\<rparr>) of
              None \<Rightarrow> (Inl StoreFailure, db)
            | Some db' \<Rightarrow>
                (case get db' reviewId of
                   None \<Rightarrow> (Inl StoreFailure, db')
                 | Some updatedData \<Rightarrow>
                     (Inr (helpfulVotes updatedData, totalVotes updatedData), db')))))"

definition reportReview :: "db \<Rightarrow> string \<Rightarrow> nat \<Rightarrow> (error + unit) \<times> db" where
  "reportReview db reviewId now =
     (if reviewId = [] then (Inl MissingField, db)
      else (case get db reviewId of
         None \<Rightarrow> (Inl NotFound, db)
       | Some doc \<Rightarrow>
           (case update db reviewId
                   (\<lambda>r. r\<lparr>reportedCount := reportedCount r + 1, updatedAt := now\<rparr>) of
              None \<Rightarrow> (Inl StoreFailure, db)
            | Some db' \<Rightarrow> (Inr (), db'))))"

subsection \<open>Client: \<^verbatim>\<open>upvoteReview\<close> and \<^verbatim>\<open>reportReview\<close> of the review service\<close>

text \<open>
  The client updates without reading first; whatever the store throws is replaced by
  the client's own error.
\<close>

definition svc_upvoteReview :: "db \<Rightarrow> string \<Rightarrow> nat \<Rightarrow> (error + unit) \<times> db" where
  "svc_upvoteReview db reviewId now =
     (case update db reviewId
             (\<lambda>r. r\<lparr>helpfulVotes := helpfulVotes r + 1, totalVotes := totalVotes r + 1,
                     updatedAt := now\<rparr>) of
        None \<Rightarrow> (Inl StoreFailure, db)
      | Some db' \<Rightarrow> (Inr (), db'))"

definition svc_reportReview :: "db \<Rightarrow> string \<Rightarrow> nat \<Rightarrow> (error + unit) \<times> db" where
  "svc_reportReview db reviewId now =
     (case update db reviewId
             (\<lambda>r. r\<lparr>reportedCount := reportedCount r + 1, updatedAt := now\<rparr>) of
        None \<Rightarrow> (Inl StoreFailure, db)
      | Some db' \<Rightarrow> (Inr (), db'))"

section \<open>Numbers of the aggregation\<close>

text \<open>
  The averages are quotients, and a quotient of two numbers is a double: the rational
  quotient rounded to the nearest binary64 value, ties to the even significand. A finite
  double is written as the rational it is; \<open>-0\<close> is not told apart from \<open>0\<close>.
\<close>

datatype jsnum = NaN | PosInf | NegInf | Fin rat

definition pow2 :: "int \<Rightarrow> rat" where
  "pow2 e = (if 0 \<le> e then 2 ^ nat e else 1 / 2 ^ nat (- e))"

text \<open>The binary exponent of a positive rational: \<open>pow2 (expo x) \<le> x < pow2 (expo x + 1)\<close>.\<close>

definition expo :: "rat \<Rightarrow> int" where
  "expo x = (let (a, b) = quotient_of x; e0 = bitlen a - bitlen b
             in if pow2 e0 \<le> x then e0 else e0 - 1)"

text \<open>Rounding to the nearest integer, a tie to the even one.\<close>

definition rne :: "rat \<Rightarrow> int" where
  "rne x = (let f = \<lfloor>x\<rfloor>; d = x - of_int f
            in if d < 1 / 2 then f else if 1 / 2 < d then f + 1
               else if even f then f else f + 1)"

text \<open>
  A positive rational rounded to 53 significant bits (to a multiple of \<open>2^-1074\<close> in the
  subnormal range).
\<close>

definition round_pos :: "rat \<Rightarrow> rat" where
  "round_pos x = (let p = max (expo x) (- 1022) - 52 in of_int (rne (x / pow2 p)) * pow2 p)"

definition to_double :: "rat \<Rightarrow> jsnum" where
  "to_double x =
     (if x = 0 then Fin 0
      else let y = round_pos \<bar>x\<bar>
           in if 1024 \<le> expo y then (if x < 0 then NegInf else PosInf)
              else Fin (if x < 0 then - y else y))"

text \<open>\<^verbatim>\<open>a / b\<close> on two integral numbers.\<close>

definition js_div :: "int \<Rightarrow> int \<Rightarrow> jsnum" where
  "js_div a b =
     (if b = 0 then (if a = 0 then NaN else if 0 < a then PosInf else NegInf)
      else to_double (of_int a / of_int b))"

text \<open>
  The strings \<^verbatim>\<open>toFixed(1)\<close> returns: \<^verbatim>\<open>NaN\<close>, \<^verbatim>\<open>Infinity\<close> with its sign, the
  exponent notation of a number of magnitude \<open>10^21\<close> or more (which reads back as the
  same number), and otherwise a sign with the decimal digits of \<open>n\<close>, the last one after
  the point: \<open>DecStr False 42\<close> is \<^verbatim>\<open>"4.2"\<close>. There \<open>n\<close> is the integer for which
  \<open>n / 10\<close> is closest to the exact value of the double, the larger one of two.
\<close>

datatype numstr = NaNStr | InfStr bool | ExpStr rat | DecStr bool nat

definition toFixed1 :: "jsnum \<Rightarrow> numstr" where
  "toFixed1 x =
     (case x of
        NaN \<Rightarrow> NaNStr
      | PosInf \<Rightarrow> InfStr False
      | NegInf \<Rightarrow> InfStr True
      | Fin v \<Rightarrow>
          if 10 ^ 21 \<le> \<bar>v\<bar> then ExpStr v
          else DecStr (v < 0) (nat \<lfloor>10 * \<bar>v\<bar> + 1 / 2\<rfloor>))"

definition parseFloat :: "numstr \<Rightarrow> jsnum" where
  "parseFloat s =
     (case s of
        NaNStr \<Rightarrow> NaN
      | InfStr neg \<Rightarrow> (if neg then NegInf else PosInf)
      | ExpStr v \<Rightarrow> Fin v
      | DecStr neg n \<Rightarrow> to_double ((if neg then - 1 else 1) * of_nat n / 10))"

section \<open>Aggregation\<close>

subsection \<open>Server: \<^verbatim>\<open>exports.getCourseStats\<close>\<close>

record courseStats =
  courseCode :: string
  totalReviews :: nat
  averageRating :: jsnum
  averageDifficulty :: jsnum
  averageWorkload :: jsnum
  averageProfHelpfulness :: jsnum

text \<open>The seven accumulators of the handler and the body of its \<^verbatim>\<open>forEach\<close>.\<close>

record totals =
  totalRating :: int
  totalDifficulty :: int
  totalWorkload :: int
  totalProfHelpfulness :: int
  difficultyCount :: nat
  workloadCount :: nat
  profHelpfulnessCount :: nat

definition stats_step :: "review \<Rightarrow> totals \<Rightarrow> totals" where
  "stats_step data t =
     (let t1 = t\<lparr>totalRating := totalRating t + rating data\<rparr>;
          t2 = (case difficultyRating data of
                  None \<Rightarrow> t1
                | Some v \<Rightarrow> if v = 0 then t1
                    else t1\<lparr>totalDifficulty := totalDifficulty t1 + v,
                            difficultyCount := difficultyCount t1 + 1\<rparr>);
          t3 = (case workloadRating data of
                  None \<Rightarrow> t2
                | Some v \<Rightarrow> if v = 0 then t2
                    else t2\<lparr>totalWorkload := totalWorkload t2 + v,
                            workloadCount := workloadCount t2 + 1\<rparr>)
      in (case profHelpfulnessRating data of
            None \<Rightarrow> t3
          | Some v \<Rightarrow> if v = 0 then t3
              else t3\<lparr>totalProfHelpfulness := totalProfHelpfulness t3 + v,
                      profHelpfulnessCount := profHelpfulnessCount t3 + 1\<rparr>))"

fun stats_forEach :: "(string \<times> review) list \<Rightarrow> totals \<Rightarrow> totals" where
  "stats_forEach [] t = t"
| "stats_forEach (doc # snapshot) t = stats_forEach snapshot (stats_step (snd doc) t)"

definition getCourseStats :: "db \<Rightarrow> string \<Rightarrow> error + courseStats" where
  "getCourseStats db code =
     (if code = [] then Inl MissingField
      else let snapshot = where_courseCode db code
        in if snapshot = []
           then Inr \<lparr> courseCode = code, totalReviews = 0, averageRating = Fin 0,
                      averageDifficulty = Fin 0, averageWorkload = Fin 0,
                      averageProfHelpfulness = Fin 0 \<rparr>
           else let t = stats_forEach snapshot
                          \<lparr> totalRating = 0, totalDifficulty = 0, totalWorkload = 0,
                            totalProfHelpfulness = 0, difficultyCount = 0, workloadCount = 0,
                            profHelpfulnessCount = 0 \<rparr>;
                    n = length snapshot
             in Inr \<lparr> courseCode = code,
                      totalReviews = n,
                      averageRating = parseFloat (toFixed1 (js_div (totalRating t) (int n))),
                      averageDifficulty =
                        (if difficultyCount t \<noteq> 0
                         then parseFloat (toFixed1
                                (js_div (totalDifficulty t) (int (difficultyCount t))))
                         else Fin 0),
                      averageWorkload =
                        (if workloadCount t \<noteq> 0
                         then parseFloat (toFixed1
                                (js_div (totalWorkload t) (int (workloadCount t))))
                         else Fin 0),
                      averageProfHelpfulness =
                        (if profHelpfulnessCount t \<noteq> 0
                         then parseFloat (toFixed1
                                (js_div (totalProfHelpfulness t) (int (profHelpfulnessCount t))))
                         else Fin 0) \<rparr>)"

subsection \<open>Server \<^verbatim>\<open>exports.getReviews\<close> and client \<^verbatim>\<open>getReviewsByCourse\<close>\<close>

text \<open>
  Both return the reviews of the course by descending \<^verbatim>\<open>helpfulVotes\<close>, each with its
  id, the average of \<^verbatim>\<open>rating\<close> and the number of reviews. The accumulator
  \<^verbatim>\<open>totalRating\<close> is \<open>acc\<close> here, the quotient \<^verbatim>\<open>averageRating\<close> is \<open>average\<close>.
\<close>

fun sum_rating :: "(string \<times> review) list \<Rightarrow> int \<Rightarrow> int" where
  "sum_rating [] acc = acc"
| "sum_rating (doc # snapshot) acc = sum_rating snapshot (acc + rating (snd doc))"

definition getReviews :: "db \<Rightarrow> string \<Rightarrow> error + (string \<times> review) list \<times> jsnum \<times> nat" where
  "getReviews db code =
     (if code = [] then Inl MissingField
      else let snapshot = orderBy_helpfulVotes_desc (where_courseCode db code)
        in if snapshot = [] then Inr ([], Fin 0, 0)
           else let reviews = snapshot;
                    acc = sum_rating snapshot 0;
                    average = js_div acc (int (length reviews))
             in Inr (reviews, parseFloat (toFixed1 average), length reviews))"

definition getReviewsByCourse :: "db \<Rightarrow> string \<Rightarrow> (string \<times> review) list \<times> jsnum \<times> nat" where
  "getReviewsByCourse db code =
     (let querySnapshot = orderBy_helpfulVotes_desc (where_courseCode db code);
          reviews = querySnapshot;
          acc = sum_rating querySnapshot 0;
          average = (if length reviews > 0 then js_div acc (int (length reviews)) else Fin 0)
      in (reviews, parseFloat (toFixed1 average), length reviews))"

section \<open>Histories of the store\<close>

text \<open>
  A request to one of the six operations that write. A submission comes with the id the
  store generates for it, which no stored document has; every request comes with the
  server time of its write.
\<close>

datatype request =
    Submit string nat reviewData
  | SvcSubmit string nat reviewData
  | Upvote string nat
  | Report string nat
  | SvcUpvote string nat
  | SvcReport string nat

fun apply_request :: "db \<Rightarrow> request \<Rightarrow> db" where
  "apply_request db (Submit newId now d) =
     (if get db newId = None then snd (submitReview db newId now d) else db)"
| "apply_request db (SvcSubmit newId now d) =
     (if get db newId = None then snd (svc_submitReview db newId now d) else db)"
| "apply_request db (Upvote reviewId now) = snd (upvoteReview db reviewId now)"
| "apply_request db (Report reviewId now) = snd (reportReview db reviewId now)"
| "apply_request db (SvcUpvote reviewId now) = snd (svc_upvoteReview db reviewId now)"
| "apply_request db (SvcReport reviewId now) = snd (svc_reportReview db reviewId now)"

text \<open>The store after a history of requests, from the empty collection.\<close>

definition run :: "request list \<Rightarrow> db" where
  "run reqs = foldl apply_request [] reqs"

section \<open>The specification's side\<close>

text \<open>
  The specification's words, to compare the handlers with: validation as section 4.1
  states it. \<open>MissingField\<close> when
  \<^verbatim>\<open>courseCode\<close> is absent or empty; \<open>InvalidRating\<close> when \<^verbatim>\<open>rating\<close> is absent or outside
  \<open>[1,5]\<close>; \<open>InvalidReviewText\<close> when \<^verbatim>\<open>reviewText\<close> is absent or its trimmed length is
  below 20; the first failing rule in this order, \<open>None\<close> for "accepted".
\<close>

definition spec_validate :: "reviewData \<Rightarrow> error option" where
  "spec_validate d =
     (if (case reviewData.courseCode d of None \<Rightarrow> True | Some c \<Rightarrow> c = []) then Some MissingField
      else if (case reviewData.rating d of None \<Rightarrow> True | Some r \<Rightarrow> r < 1 \<or> 5 < r)
        then Some InvalidRating
      else if (case reviewData.reviewText d of None \<Rightarrow> True | Some t \<Rightarrow> length (trim t) < 20)
        then Some InvalidReviewText
      else None)"

text \<open>
  The data model's optional rating, "integer 1-5 or absent", widened by the \<open>0\<close> with
  which the review form marks a rating that was not selected.
\<close>

definition optional_ok :: "int option \<Rightarrow> bool" where
  "optional_ok v = (case v of None \<Rightarrow> True | Some n \<Rightarrow> 0 \<le> n \<and> n \<le> 5)"

text \<open>What a handler stores for an optional rating it was given: \<^verbatim>\<open>null\<close> for \<open>0\<close>.\<close>

definition stored_optional :: "int option \<Rightarrow> int option" where
  "stored_optional v = (if v = Some 0 then None else v)"

text \<open>
  The specification's words, to compare the handlers with: the arithmetic mean of integer
  ratings, as a rational; the reference fixed-point rounding of section 4.3,
  round-half-up to one decimal place; and the means it rounds up for being exactly
  halfway between two neighbouring tenths.
\<close>

definition mean :: "int list \<Rightarrow> rat" where
  "mean vs = of_int (sum_list vs) / of_nat (length vs)"

definition half_up1 :: "rat \<Rightarrow> rat" where
  "half_up1 x = of_int \<lfloor>10 * x + 1 / 2\<rfloor> / 10"

definition tenths_tie :: "rat \<Rightarrow> bool" where
  "tenths_tie x = (of_int \<lfloor>10 * x + 1 / 2\<rfloor> = 10 * x + 1 / 2)"

text \<open>
  The ratings of a set of reviews, and the values of one optional rating over the reviews
  that supply it (the field is not \<^verbatim>\<open>null\<close>).
\<close>

definition ratings :: "(string \<times> review) list \<Rightarrow> int list" where
  "ratings snapshot = map (\<lambda>(k, r). rating r) snapshot"

definition present :: "(review \<Rightarrow> int option) \<Rightarrow> (string \<times> review) list \<Rightarrow> int list" where
  "present f snapshot = List.map_filter (\<lambda>(k, r). f r) snapshot"

text \<open>
  A property of every stored review. The data model's invariant
  \<open>helpfulVotes \<le> totalVotes\<close> is \<open>all_reviews (\<lambda>r. helpfulVotes r \<le> totalVotes r)\<close>.
\<close>

definition all_reviews :: "(review \<Rightarrow> bool) \<Rightarrow> db \<Rightarrow> bool" where
  "all_reviews P db = (\<forall>(k, r) \<in> set db. P r)"

text \<open>The data model's optional rating, "integer 1-5 or absent".\<close>

definition optional_in_range :: "int option \<Rightarrow> bool" where
  "optional_in_range v = (case v of None \<Rightarrow> True | Some n \<Rightarrow> 1 \<le> n \<and> n \<le> 5)"

text \<open>
  The values of one optional rating that the loop of \<^verbatim>\<open>getCourseStats\<close> adds up and counts:
  those of the reviews in which the field is truthy.
\<close>

definition counted :: "(review \<Rightarrow> int option) \<Rightarrow> (string \<times> review) list \<Rightarrow> int list" where
  "counted f snapshot = filter (\<lambda>v. v \<noteq> 0) (present f snapshot)"

text \<open>
  An average as every handler computes it from a sum and a count: the quotient, through
  \<^verbatim>\<open>toFixed(1)\<close> and \<^verbatim>\<open>parseFloat\<close>; \<open>0\<close> over no value at all.
\<close>

definition average1 :: "int list \<Rightarrow> jsnum" where
  "average1 vs =
     (if vs = [] then Fin 0
      else parseFloat (toFixed1 (js_div (sum_list vs) (int (length vs)))))"


section \<open>Concrete submissions and stores\<close>

definition sample :: reviewData where
  "sample =
     \<lparr> reviewData.courseCode = Some ''CASCS131'',
       reviewData.courseName = Some ''Combinatoric Structures'',
       reviewData.collegeCode = Some ''CAS'',
       reviewData.subjectCode = Some ''CS'',
       reviewData.courseNumber = Some ''131'',
       reviewData.rating = Some 5,
       reviewData.reviewText = Some ''Great course, learned a lot.'',
       reviewData.difficultyRating = None,
       reviewData.workloadRating = None,
       reviewData.profHelpfulnessRating = None,
       reviewData.semesterTaken = Some ''Fall 2024'',
       reviewData.authorName = Some ''Bob'',
       reviewData.authorEmail = Some ''bob@bu.edu'',
       reviewData.isAnonymous = None \<rparr>"

definition submission :: "int \<Rightarrow> int option \<Rightarrow> reviewData" where
  "submission r dr = sample\<lparr>reviewData.rating := Some r, reviewData.difficultyRating := dr\<rparr>"

text \<open>Three reviews with the ratings 5, 4, 3, two of them with the difficulties 4 and 2.\<close>

definition db3 :: db where
  "db3 = run [Submit ''r1'' 1 (submission 5 (Some 4)), Submit ''r2'' 2 (submission 4 None),
              SvcSubmit ''r3'' 3 (submission 3 (Some 2))]"

text \<open>Twenty reviews, seventeen with the rating 1 and three with the rating 2.\<close>

definition db20 :: db where
  "db20 = run (map (\<lambda>k. Submit k 1 (submission 1 None))
                 [''a01'', ''a02'', ''a03'', ''a04'', ''a05'', ''a06'', ''a07'', ''a08'', ''a09'',
                  ''a10'', ''a11'', ''a12'', ''a13'', ''a14'', ''a15'', ''a16'', ''a17'']
               @ map (\<lambda>k. Submit k 2 (submission 2 None)) [''b01'', ''b02'', ''b03''])"

text \<open>A store with one review, and a history of five requests on it.\<close>

definition db1 :: db where
  "db1 = run [Submit ''r1'' 1 sample]"

definition history :: "request list" where
  "history = [Submit ''r1'' 1 sample, Upvote ''r1'' 2, Report ''r1'' 3, SvcUpvote ''r1'' 4,
              Upvote ''r9'' 5]"

section \<open>Submissions: validation and normalisation\<close>

subsection \<open>Auxiliary facts\<close>

lemma trim_sample: "trim ''Great course, learned a lot.'' = ''Great course, learned a lot.''"
  by (simp add: trim_def isWhiteSpace_def)

lemma length_trim_le: "length (trim s) \<le> length s"
proof -
  have "length (dropWhile isWhiteSpace (rev (dropWhile isWhiteSpace s)))
      \<le> length (rev (dropWhile isWhiteSpace s))"
    by (rule length_dropWhile_le)
  also have "\<dots> \<le> length s" by (simp add: length_dropWhile_le)
  finally show ?thesis by (simp add: trim_def)
qed

lemma trim_Nil: "trim [] = []"
  by (simp add: trim_def)

lemma submitReview_spec:
  "fst (submitReview db newId now d) = (case spec_validate d of None \<Rightarrow> Inr newId | Some e \<Rightarrow> Inl e)"
  by (auto simp add: submitReview_def spec_validate_def trim_Nil split: option.splits)

lemma submitReview_writes:
  "submitReview db newId now d = (Inr j, db') \<Longrightarrow>
     \<exists>c r t. reviewData.courseCode d = Some c \<and> reviewData.rating d = Some r
       \<and> reviewData.reviewText d = Some t \<and> j = newId
       \<and> db' = db @ [(newId, reviewToSubmit now c r t d)]"
  by (auto simp add: submitReview_def add_def split: option.splits if_splits)

lemma svc_submitReview_writes:
  "svc_submitReview db newId now d = (Inr j, db') \<Longrightarrow>
     \<exists>c r t. reviewData.courseCode d = Some c \<and> reviewData.rating d = Some r
       \<and> reviewData.reviewText d = Some t \<and> j = newId
       \<and> db' = db @ [(newId, svc_reviewToSubmit now c r t d)]"
  by (auto simp add: svc_submitReview_def add_def split: option.splits if_splits)

lemma svc_submitReview_order:
  "fst (svc_submitReview db newId now d) =
     (if \<not> truthy_str (reviewData.courseCode d) \<or> \<not> truthy_num (reviewData.rating d)
         \<or> \<not> truthy_str (reviewData.reviewText d) then Inl MissingField
      else if (case reviewData.rating d of None \<Rightarrow> True | Some r \<Rightarrow> r < 1 \<or> 5 < r)
        then Inl InvalidRating
      else if (case reviewData.reviewText d of None \<Rightarrow> True | Some t \<Rightarrow> length t < 20)
        then Inl InvalidReviewText
      else Inr newId)"
  by (auto simp add: svc_submitReview_def truthy_str_def truthy_num_def split: option.splits)

lemmas sample_eval = sample_def trim_sample add_def get_def truthy_bool_def truthy_str_def
  truthy_num_def or_str_def parseInt_def

lemma reviewToSubmit_optional:
  "difficultyRating (reviewToSubmit now c r t d) = stored_optional (reviewData.difficultyRating d)"
  "workloadRating (reviewToSubmit now c r t d) = stored_optional (reviewData.workloadRating d)"
  "profHelpfulnessRating (reviewToSubmit now c r t d)
     = stored_optional (reviewData.profHelpfulnessRating d)"
  "difficultyRating (svc_reviewToSubmit now c r t d) = stored_optional (reviewData.difficultyRating d)"
  "workloadRating (svc_reviewToSubmit now c r t d) = stored_optional (reviewData.workloadRating d)"
  "profHelpfulnessRating (svc_reviewToSubmit now c r t d)
     = stored_optional (reviewData.profHelpfulnessRating d)"
  by (auto simp add: reviewToSubmit_def svc_reviewToSubmit_def stored_optional_def truthy_num_def
      parseInt_def split: option.splits)

lemma submitReview_fst_optional:
  "fst (submitReview db newId now (d\<lparr>reviewData.difficultyRating := a, reviewData.workloadRating := b,
          reviewData.profHelpfulnessRating := c\<rparr>)) = fst (submitReview db newId now d)"
  "fst (svc_submitReview db newId now (d\<lparr>reviewData.difficultyRating := a,
          reviewData.workloadRating := b, reviewData.profHelpfulnessRating := c\<rparr>))
     = fst (svc_submitReview db newId now d)"
  by (simp_all add: submitReview_spec spec_validate_def svc_submitReview_order)

lemma reviewToSubmit_stored_optional:
  "reviewToSubmit now c r t
     (d\<lparr>reviewData.difficultyRating := stored_optional (reviewData.difficultyRating d),
        reviewData.workloadRating := stored_optional (reviewData.workloadRating d),
        reviewData.profHelpfulnessRating := stored_optional (reviewData.profHelpfulnessRating d)\<rparr>)
   = reviewToSubmit now c r t d"
  "svc_reviewToSubmit now c r t
     (d\<lparr>reviewData.difficultyRating := stored_optional (reviewData.difficultyRating d),
        reviewData.workloadRating := stored_optional (reviewData.workloadRating d),
        reviewData.profHelpfulnessRating := stored_optional (reviewData.profHelpfulnessRating d)\<rparr>)
   = svc_reviewToSubmit now c r t d"
  by (simp_all add: reviewToSubmit_def svc_reviewToSubmit_def stored_optional_def truthy_num_def)

text \<open>
  With \<^verbatim>\<open>isAnonymous\<close> literally \<^verbatim>\<open>true\<close> both handlers store the name \<^verbatim>\<open>Anonymous\<close> and
  no e-mail address, whatever the caller supplied.
\<close>

lemma submitReview_anonymous_redacted:
  assumes "reviewData.isAnonymous d = Some True"
  shows "submitReview db newId now d = (Inr j, db') \<Longrightarrow>
           \<exists>r. db' = db @ [(newId, r)] \<and> authorName r = Some ''Anonymous'' \<and> authorEmail r = None"
    and "svc_submitReview db newId now d = (Inr j, db') \<Longrightarrow>
           \<exists>r. db' = db @ [(newId, r)] \<and> authorName r = Some ''Anonymous'' \<and> authorEmail r = None"
  using assms
  by (auto dest!: submitReview_writes svc_submitReview_writes
      simp add: reviewToSubmit_def svc_reviewToSubmit_def truthy_bool_def)

subsection \<open>Claim C1: anonymity\<close>

text \<open>
  Claim C1: for every submission with \<^verbatim>\<open>isAnonymous = true\<close>, including a submission that
  leaves \<^verbatim>\<open>isAnonymous\<close> unspecified (its default is \<^verbatim>\<open>true\<close>), the persisted review has
  \<^verbatim>\<open>authorName = "Anonymous"\<close> and no \<^verbatim>\<open>authorEmail\<close>, whatever name and e-mail address the
  caller supplied.

  The code at the submission \<open>sample\<close>, which leaves \<^verbatim>\<open>isAnonymous\<close> out and supplies the
  name \<^verbatim>\<open>Bob\<close> and the address \<^verbatim>\<open>bob@bu.edu\<close>: the server stores the flag by
  \<^verbatim>\<open>reviewData.isAnonymous !== false\<close> (the client by \<^verbatim>\<open>reviewData.isAnonymous || true\<close>),
  so the stored flag is \<^verbatim>\<open>true\<close>; but name and address are redacted on the truthiness of
  \<^verbatim>\<open>reviewData.isAnonymous\<close>, which \<^verbatim>\<open>undefined\<close> does not have. The stored review is
  anonymous by its flag and carries the caller's name and address.
\<close>

theorem submitReview_unspecified_isAnonymous_not_redacted:
  "reviewData.isAnonymous sample = None \<and>
   map_option (\<lambda>r. (isAnonymous r, authorName r, authorEmail r))
       (get (snd (submitReview [] ''r1'' 1 sample)) ''r1'')
     = Some (True, Some ''Bob'', Some ''bob@bu.edu'') \<and>
   map_option (\<lambda>r. (isAnonymous r, authorName r, authorEmail r))
       (get (snd (svc_submitReview [] ''r1'' 1 sample)) ''r1'')
     = Some (True, Some ''Bob'', Some ''bob@bu.edu'')"
  by (simp add: submitReview_def svc_submitReview_def reviewToSubmit_def svc_reviewToSubmit_def
      sample_eval)

text \<open>The evaluation above, used: the client did store a document under the new id.\<close>

theorem submitReview_unspecified_isAnonymous_witness:
  "get (snd (svc_submitReview [] ''r1'' 1 sample)) ''r1'' \<noteq> None"
  using submitReview_unspecified_isAnonymous_not_redacted by auto

subsection \<open>Claim C2: what validation accepts\<close>

text \<open>
  Claim C2: validation accepts exactly when the rating is in \<open>[1,5]\<close>, the trimmed review
  text has at least 20 characters and the course code is non-empty; a rating outside
  \<open>[1,5]\<close> is rejected with \<open>InvalidRating\<close>, a trimmed text shorter than 20 with
  \<open>InvalidReviewText\<close>.

  Against the claim as stated: the client tests \<^verbatim>\<open>!reviewData.rating\<close> together with the
  other two required fields, so a rating of \<open>0\<close> is a missing field there, not an invalid
  rating.
\<close>

theorem svc_submitReview_rating_zero_is_missing:
  "spec_validate (sample\<lparr>reviewData.rating := Some 0\<rparr>) = Some InvalidRating \<and>
   fst (svc_submitReview [] ''r1'' 1 (sample\<lparr>reviewData.rating := Some 0\<rparr>)) = Inl MissingField"
  by (simp add: spec_validate_def svc_submitReview_def sample_eval)

text \<open>
  Claim C2, amended. The server accepts exactly when the course code is non-empty, the
  rating is in \<open>[1,5]\<close> and the trimmed text has at least 20 characters; with a course
  code, it rejects a rating outside \<open>[1,5]\<close> with \<open>InvalidRating\<close> and, the rating being
  in range, a trimmed text shorter than 20 with \<open>InvalidReviewText\<close>. The client accepts
  every submission the server accepts; it rejects an absent or zero rating with
  \<open>MissingField\<close>, and with the three required fields present a rating outside \<open>[1,5]\<close>
  with \<open>InvalidRating\<close> and then a text shorter than 20 with \<open>InvalidReviewText\<close>.
\<close>

theorem validation_accepts_iff:
  "(fst (submitReview db newId now d) = Inr newId \<longleftrightarrow>
      (\<exists>c r t. reviewData.courseCode d = Some c \<and> c \<noteq> [] \<and> reviewData.rating d = Some r
         \<and> 1 \<le> r \<and> r \<le> 5 \<and> reviewData.reviewText d = Some t \<and> 20 \<le> length (trim t))) \<and>
   (\<forall>c r. reviewData.courseCode d = Some c \<and> c \<noteq> [] \<and> reviewData.rating d = Some r
         \<and> (r < 1 \<or> 5 < r) \<longrightarrow> fst (submitReview db newId now d) = Inl InvalidRating) \<and>
   (\<forall>c r t. reviewData.courseCode d = Some c \<and> c \<noteq> [] \<and> reviewData.rating d = Some r
         \<and> 1 \<le> r \<and> r \<le> 5 \<and> reviewData.reviewText d = Some t \<and> length (trim t) < 20
       \<longrightarrow> fst (submitReview db newId now d) = Inl InvalidReviewText) \<and>
   (\<forall>c r t. reviewData.courseCode d = Some c \<and> c \<noteq> [] \<and> reviewData.rating d = Some r
         \<and> 1 \<le> r \<and> r \<le> 5 \<and> reviewData.reviewText d = Some t \<and> 20 \<le> length (trim t)
       \<longrightarrow> fst (svc_submitReview db newId now d) = Inr newId) \<and>
   (reviewData.rating d = None \<or> reviewData.rating d = Some 0
       \<longrightarrow> fst (svc_submitReview db newId now d) = Inl MissingField) \<and>
   (\<forall>c r t. reviewData.courseCode d = Some c \<and> c \<noteq> [] \<and> reviewData.reviewText d = Some t
         \<and> t \<noteq> [] \<and> reviewData.rating d = Some r \<and> (r < 0 \<or> 5 < r)
       \<longrightarrow> fst (svc_submitReview db newId now d) = Inl InvalidRating) \<and>
   (\<forall>c r t. reviewData.courseCode d = Some c \<and> c \<noteq> [] \<and> reviewData.rating d = Some r
         \<and> 1 \<le> r \<and> r \<le> 5 \<and> reviewData.reviewText d = Some t \<and> t \<noteq> [] \<and> length t < 20
       \<longrightarrow> fst (svc_submitReview db newId now d) = Inl InvalidReviewText)"
proof (intro conjI allI impI)
  show "fst (submitReview db newId now d) = Inr newId \<longleftrightarrow>
      (\<exists>c r t. reviewData.courseCode d = Some c \<and> c \<noteq> [] \<and> reviewData.rating d = Some r
         \<and> 1 \<le> r \<and> r \<le> 5 \<and> reviewData.reviewText d = Some t \<and> 20 \<le> length (trim t))"
    by (auto simp add: submitReview_spec spec_validate_def split: option.splits)
next
  fix c r
  assume "reviewData.courseCode d = Some c \<and> c \<noteq> [] \<and> reviewData.rating d = Some r
         \<and> (r < 1 \<or> 5 < r)"
  then show "fst (submitReview db newId now d) = Inl InvalidRating"
    by (auto simp add: submitReview_spec spec_validate_def)
next
  fix c r t
  assume "reviewData.courseCode d = Some c \<and> c \<noteq> [] \<and> reviewData.rating d = Some r
         \<and> 1 \<le> r \<and> r \<le> 5 \<and> reviewData.reviewText d = Some t \<and> length (trim t) < 20"
  then show "fst (submitReview db newId now d) = Inl InvalidReviewText"
    by (auto simp add: submitReview_spec spec_validate_def)
next
  fix c r t
  assume a: "reviewData.courseCode d = Some c \<and> c \<noteq> [] \<and> reviewData.rating d = Some r
         \<and> 1 \<le> r \<and> r \<le> 5 \<and> reviewData.reviewText d = Some t \<and> 20 \<le> length (trim t)"
  then have "20 \<le> length t" "t \<noteq> []" using length_trim_le[of t] by auto
  with a show "fst (svc_submitReview db newId now d) = Inr newId"
    by (auto simp add: svc_submitReview_order truthy_str_def truthy_num_def)
next
  assume "reviewData.rating d = None \<or> reviewData.rating d = Some 0"
  then show "fst (svc_submitReview db newId now d) = Inl MissingField"
    by (auto simp add: svc_submitReview_order truthy_num_def)
next
  fix c r t
  assume "reviewData.courseCode d = Some c \<and> c \<noteq> [] \<and> reviewData.reviewText d = Some t
         \<and> t \<noteq> [] \<and> reviewData.rating d = Some r \<and> (r < 0 \<or> 5 < r)"
  then show "fst (svc_submitReview db newId now d) = Inl InvalidRating"
    by (auto simp add: svc_submitReview_order truthy_str_def truthy_num_def)
next
  fix c r t
  assume "reviewData.courseCode d = Some c \<and> c \<noteq> [] \<and> reviewData.rating d = Some r
         \<and> 1 \<le> r \<and> r \<le> 5 \<and> reviewData.reviewText d = Some t \<and> t \<noteq> [] \<and> length t < 20"
  then show "fst (svc_submitReview db newId now d) = Inl InvalidReviewText"
    by (auto simp add: svc_submitReview_order truthy_str_def truthy_num_def)
qed

text \<open>
  The amended claim at \<open>sample\<close> (accepted by both), at a rating of 6 and at a text that
  is 18 characters long and 9 after trimming.
\<close>

theorem validation_accepts_iff_witness:
  "fst (submitReview [] ''r1'' 1 sample) = Inr ''r1'' \<and>
   fst (svc_submitReview [] ''r1'' 1 sample) = Inr ''r1'' \<and>
   fst (submitReview [] ''r1'' 1 (sample\<lparr>reviewData.rating := Some 6\<rparr>)) = Inl InvalidRating \<and>
   fst (submitReview [] ''r1'' 1 (sample\<lparr>reviewData.reviewText := Some ''   too short      ''\<rparr>))
     = Inl InvalidReviewText"
proof -
  have s: "reviewData.courseCode sample = Some ''CASCS131''" "reviewData.rating sample = Some 5"
    "reviewData.reviewText sample = Some ''Great course, learned a lot.''"
    by (simp_all add: sample_def)
  have t: "trim ''   too short      '' = ''too short''"
    by (simp add: trim_def isWhiteSpace_def)
  note v = validation_accepts_iff[of "[]" "''r1''" 1]
  have "fst (submitReview [] ''r1'' 1 sample) = Inr ''r1''"
    using v[of sample] s by (simp add: trim_sample)
  moreover have "fst (svc_submitReview [] ''r1'' 1 sample) = Inr ''r1''"
    using v[of sample] s by (simp add: trim_sample)
  moreover have "fst (submitReview [] ''r1'' 1 (sample\<lparr>reviewData.rating := Some 6\<rparr>)) = Inl InvalidRating"
    using v[of "sample\<lparr>reviewData.rating := Some 6\<rparr>"] s by simp
  moreover have "fst (submitReview [] ''r1'' 1 (sample\<lparr>reviewData.reviewText := Some ''   too short      ''\<rparr>))
     = Inl InvalidReviewText"
    using v[of "sample\<lparr>reviewData.reviewText := Some ''   too short      ''\<rparr>"] s by (simp add: t)
  ultimately show ?thesis by simp
qed

text \<open>
  Beside the amended claim: the client compares the length of the text as it came, where
  the server (and the review form) trim first. A text of two letters and eighteen blanks
  fails the rule of the specification and is accepted, and stored, by the client.
\<close>

lemma svc_submitReview_accepts_padded_text:
  "spec_validate (sample\<lparr>reviewData.reviewText := Some ''ok                  ''\<rparr>)
     = Some InvalidReviewText \<and>
   fst (submitReview [] ''r1'' 1 (sample\<lparr>reviewData.reviewText := Some ''ok                  ''\<rparr>))
     = Inl InvalidReviewText \<and>
   fst (svc_submitReview [] ''r1'' 1
          (sample\<lparr>reviewData.reviewText := Some ''ok                  ''\<rparr>)) = Inr ''r1''"
proof -
  have t: "trim ''ok                  '' = ''ok''"
    by (simp add: trim_def isWhiteSpace_def)
  show ?thesis
    by (simp add: spec_validate_def submitReview_def svc_submitReview_def t sample_def
        truthy_str_def truthy_num_def)
qed

subsection \<open>Claim C3: the optional ratings\<close>

text \<open>
  Claim C3: a submission in which an optional rating is present but outside the integer
  range \<open>[1,5]\<close> is rejected; the absence of an optional rating is always valid.

  Against the claim as stated: a difficulty of \<open>0\<close> is present and outside \<open>[1,5]\<close>, and
  both handlers accept the submission. (They read \<open>0\<close>, the review form's value for a
  rating that was not selected, as "not provided".)
\<close>

theorem zero_optional_rating_accepted:
  "reviewData.difficultyRating (sample\<lparr>reviewData.difficultyRating := Some 0\<rparr>) = Some 0 \<and>
   fst (submitReview [] ''r1'' 1 (sample\<lparr>reviewData.difficultyRating := Some 0\<rparr>)) = Inr ''r1'' \<and>
   fst (svc_submitReview [] ''r1'' 1 (sample\<lparr>reviewData.difficultyRating := Some 0\<rparr>)) = Inr ''r1''"
  by (simp add: submitReview_def svc_submitReview_def sample_eval)

text \<open>
  Claim C3, amended. When every optional rating is absent, \<open>0\<close> or in the integer range
  \<open>[1,5]\<close>, the optional ratings have no part in validation: server and client answer as
  they do for the same submission without optional ratings; and an accepted submission is
  stored with \<^verbatim>\<open>null\<close> for an optional rating that was absent or \<open>0\<close> and with the value
  given for one in \<open>[1,5]\<close>.
\<close>

theorem optional_ratings_absent_or_in_range:
  assumes "optional_ok (reviewData.difficultyRating d)"
    and "optional_ok (reviewData.workloadRating d)"
    and "optional_ok (reviewData.profHelpfulnessRating d)"
  shows "fst (submitReview db newId now d)
       = fst (submitReview db newId now
           (d\<lparr>reviewData.difficultyRating := None, reviewData.workloadRating := None,
              reviewData.profHelpfulnessRating := None\<rparr>)) \<and>
     fst (svc_submitReview db newId now d)
       = fst (svc_submitReview db newId now
           (d\<lparr>reviewData.difficultyRating := None, reviewData.workloadRating := None,
              reviewData.profHelpfulnessRating := None\<rparr>)) \<and>
     (\<forall>j db'. submitReview db newId now d = (Inr j, db') \<or> svc_submitReview db newId now d = (Inr j, db')
        \<longrightarrow> (\<exists>r. db' = db @ [(newId, r)]
              \<and> difficultyRating r = stored_optional (reviewData.difficultyRating d)
              \<and> workloadRating r = stored_optional (reviewData.workloadRating d)
              \<and> profHelpfulnessRating r = stored_optional (reviewData.profHelpfulnessRating d)))"
  by (auto simp add: submitReview_fst_optional reviewToSubmit_optional
      dest!: submitReview_writes svc_submitReview_writes)

text \<open>The amended claim at a submission with difficulty \<open>0\<close> and workload \<open>3\<close>.\<close>

theorem optional_ratings_absent_or_in_range_witness:
  "fst (submitReview [] ''r1'' 1
          (sample\<lparr>reviewData.difficultyRating := Some 0, reviewData.workloadRating := Some 3\<rparr>))
     = Inr ''r1'' \<and>
   map_option (\<lambda>r. (difficultyRating r, workloadRating r, profHelpfulnessRating r))
     (get (snd (submitReview [] ''r1'' 1
          (sample\<lparr>reviewData.difficultyRating := Some 0, reviewData.workloadRating := Some 3\<rparr>))) ''r1'')
     = Some (None, Some 3, None)"
proof -
  let ?d = "sample\<lparr>reviewData.difficultyRating := Some 0, reviewData.workloadRating := Some 3\<rparr>"
  have ok: "optional_ok (reviewData.difficultyRating ?d)" "optional_ok (reviewData.workloadRating ?d)"
    "optional_ok (reviewData.profHelpfulnessRating ?d)"
    by (simp_all add: optional_ok_def sample_def)
  note th = optional_ratings_absent_or_in_range[OF ok, of "[]" "''r1''" 1]
  have e: "?d\<lparr>reviewData.difficultyRating := None, reviewData.workloadRating := None,
              reviewData.profHelpfulnessRating := None\<rparr> = sample"
    by (simp add: sample_def)
  have acc: "fst (submitReview [] ''r1'' 1 sample) = Inr ''r1''"
    by (simp add: submitReview_def sample_eval)
  have f: "fst (submitReview [] ''r1'' 1 ?d) = Inr ''r1''"
    using th acc by (simp only: e)
  obtain db' where s: "submitReview [] ''r1'' 1 ?d = (Inr ''r1'', db')"
    using f by (cases "submitReview [] ''r1'' 1 ?d") simp
  from th s obtain r where r: "db' = [] @ [(''r1'', r)]"
    "difficultyRating r = stored_optional (reviewData.difficultyRating ?d)"
    "workloadRating r = stored_optional (reviewData.workloadRating ?d)"
    "profHelpfulnessRating r = stored_optional (reviewData.profHelpfulnessRating ?d)"
    by blast
  show ?thesis
    using f s r by (simp add: get_def stored_optional_def sample_def)
qed

text \<open>
  Beside the amended claim: an optional rating outside \<open>[0,5]\<close> is not rejected either.
  A difficulty of 9 is accepted and stored as 9 by both handlers.
\<close>

lemma submitReview_stores_optional_rating_of_nine:
  "map_option difficultyRating
       (get (snd (submitReview [] ''r1'' 1 (sample\<lparr>reviewData.difficultyRating := Some 9\<rparr>))) ''r1'')
     = Some (Some 9) \<and>
   map_option difficultyRating
       (get (snd (svc_submitReview [] ''r1'' 1 (sample\<lparr>reviewData.difficultyRating := Some 9\<rparr>)))
          ''r1'')
     = Some (Some 9)"
  by (simp add: submitReview_def svc_submitReview_def reviewToSubmit_def svc_reviewToSubmit_def
      sample_eval)

subsection \<open>Claim C4: the first failing rule wins\<close>

text \<open>
  Claim C4: an invalid submission with several failing fields gets the error kind of the
  first failing rule in the order \<^verbatim>\<open>courseCode\<close>, \<^verbatim>\<open>rating\<close>, \<^verbatim>\<open>reviewText\<close>, in the server
  handler and in the client service.

  Against the claim as stated: with a rating of 9 and no review text the first failing
  rule is the rating's, and the client answers \<open>MissingField\<close>, because it tests the
  presence of all three required fields before the range of the rating.
\<close>

theorem svc_submitReview_missing_text_before_rating:
  "spec_validate (sample\<lparr>reviewData.rating := Some 9, reviewData.reviewText := None\<rparr>)
     = Some InvalidRating \<and>
   fst (svc_submitReview [] ''r1'' 1
          (sample\<lparr>reviewData.rating := Some 9, reviewData.reviewText := None\<rparr>))
     = Inl MissingField"
  by (simp add: spec_validate_def svc_submitReview_def sample_eval)

text \<open>
  Claim C4, amended. The server answers with the first failing rule in the order
  \<^verbatim>\<open>courseCode\<close>, \<^verbatim>\<open>rating\<close>, \<^verbatim>\<open>reviewText\<close>. The client answers with the first failing rule
  in its own order: the presence of the three required fields (\<open>MissingField\<close>), then the
  range of the rating, then the length of the text.
\<close>

theorem first_error_wins:
  "fst (submitReview db newId now d) =
     (case spec_validate d of None \<Rightarrow> Inr newId | Some e \<Rightarrow> Inl e) \<and>
   fst (svc_submitReview db newId now d) =
     (if \<not> truthy_str (reviewData.courseCode d) \<or> \<not> truthy_num (reviewData.rating d)
         \<or> \<not> truthy_str (reviewData.reviewText d) then Inl MissingField
      else if (case reviewData.rating d of None \<Rightarrow> True | Some r \<Rightarrow> r < 1 \<or> 5 < r)
        then Inl InvalidRating
      else if (case reviewData.reviewText d of None \<Rightarrow> True | Some t \<Rightarrow> length t < 20)
        then Inl InvalidReviewText
      else Inr newId)"
  using submitReview_spec svc_submitReview_order by simp

text \<open>
  The amended claim at submissions with several failing fields: no course code, a rating
  of 9 and a short text; then the same with a course code.
\<close>

theorem first_error_wins_witness:
  "fst (submitReview [] ''r1'' 1
          (sample\<lparr>reviewData.courseCode := None, reviewData.rating := Some 9,
                  reviewData.reviewText := Some ''short''\<rparr>)) = Inl MissingField \<and>
   fst (submitReview [] ''r1'' 1
          (sample\<lparr>reviewData.rating := Some 9, reviewData.reviewText := Some ''short''\<rparr>))
     = Inl InvalidRating \<and>
   fst (svc_submitReview [] ''r1'' 1
          (sample\<lparr>reviewData.rating := Some 9, reviewData.reviewText := Some ''short''\<rparr>))
     = Inl InvalidRating"
  using first_error_wins[of "[]" "''r1''" 1
      "sample\<lparr>reviewData.courseCode := None, reviewData.rating := Some 9,
              reviewData.reviewText := Some ''short''\<rparr>"]
    first_error_wins[of "[]" "''r1''" 1
      "sample\<lparr>reviewData.rating := Some 9, reviewData.reviewText := Some ''short''\<rparr>"]
  by (simp add: spec_validate_def sample_def truthy_str_def truthy_num_def)

subsection \<open>Claim C10: an optional rating of zero\<close>

text \<open>
  Claim C10: a submission whose optional rating equals \<open>0\<close> is not rejected for it, and
  the field is persisted as \<^verbatim>\<open>null\<close>, indistinguishable from a rating that was never
  provided. Replacing every optional rating that is \<open>0\<close> by an absent one changes neither
  the answer nor the stored document, in the server and in the client; and a submission
  whose required fields are valid is accepted and stored with \<^verbatim>\<open>null\<close> in each optional
  rating that was \<open>0\<close>.
\<close>

theorem zero_optional_rating_is_absent:
  "submitReview db newId now
     (d\<lparr>reviewData.difficultyRating := stored_optional (reviewData.difficultyRating d),
        reviewData.workloadRating := stored_optional (reviewData.workloadRating d),
        reviewData.profHelpfulnessRating := stored_optional (reviewData.profHelpfulnessRating d)\<rparr>)
     = submitReview db newId now d \<and>
   svc_submitReview db newId now
     (d\<lparr>reviewData.difficultyRating := stored_optional (reviewData.difficultyRating d),
        reviewData.workloadRating := stored_optional (reviewData.workloadRating d),
        reviewData.profHelpfulnessRating := stored_optional (reviewData.profHelpfulnessRating d)\<rparr>)
     = svc_submitReview db newId now d \<and>
   (spec_validate d = None \<longrightarrow>
      (\<exists>r. submitReview db newId now d = (Inr newId, db @ [(newId, r)])
         \<and> (reviewData.difficultyRating d = Some 0 \<longrightarrow> difficultyRating r = None)
         \<and> (reviewData.workloadRating d = Some 0 \<longrightarrow> workloadRating r = None)
         \<and> (reviewData.profHelpfulnessRating d = Some 0 \<longrightarrow> profHelpfulnessRating r = None)) \<and>
      (\<exists>r. svc_submitReview db newId now d = (Inr newId, db @ [(newId, r)])
         \<and> (reviewData.difficultyRating d = Some 0 \<longrightarrow> difficultyRating r = None)
         \<and> (reviewData.workloadRating d = Some 0 \<longrightarrow> workloadRating r = None)
         \<and> (reviewData.profHelpfulnessRating d = Some 0 \<longrightarrow> profHelpfulnessRating r = None)))"
proof (intro conjI impI)
  show "submitReview db newId now
     (d\<lparr>reviewData.difficultyRating := stored_optional (reviewData.difficultyRating d),
        reviewData.workloadRating := stored_optional (reviewData.workloadRating d),
        reviewData.profHelpfulnessRating := stored_optional (reviewData.profHelpfulnessRating d)\<rparr>)
     = submitReview db newId now d"
    by (simp add: submitReview_def reviewToSubmit_stored_optional split: option.splits)
  show "svc_submitReview db newId now
     (d\<lparr>reviewData.difficultyRating := stored_optional (reviewData.difficultyRating d),
        reviewData.workloadRating := stored_optional (reviewData.workloadRating d),
        reviewData.profHelpfulnessRating := stored_optional (reviewData.profHelpfulnessRating d)\<rparr>)
     = svc_submitReview db newId now d"
    by (simp add: svc_submitReview_def reviewToSubmit_stored_optional split: option.splits)
next
  assume v: "spec_validate d = None"
  then obtain c r t where d: "reviewData.courseCode d = Some c" "c \<noteq> []"
    "reviewData.rating d = Some r" "1 \<le> r" "r \<le> 5" "reviewData.reviewText d = Some t"
    "20 \<le> length (trim t)"
    by (auto simp add: spec_validate_def split: option.splits if_splits)
  have t: "t \<noteq> []" "20 \<le> length t" using d(7) length_trim_le[of t] by auto
  have "submitReview db newId now d = (Inr newId, db @ [(newId, reviewToSubmit now c r t d)])"
    using d t by (simp add: submitReview_def add_def)
  then show "\<exists>r. submitReview db newId now d = (Inr newId, db @ [(newId, r)])
         \<and> (reviewData.difficultyRating d = Some 0 \<longrightarrow> difficultyRating r = None)
         \<and> (reviewData.workloadRating d = Some 0 \<longrightarrow> workloadRating r = None)
         \<and> (reviewData.profHelpfulnessRating d = Some 0 \<longrightarrow> profHelpfulnessRating r = None)"
    by (simp add: reviewToSubmit_optional stored_optional_def)
  have "svc_submitReview db newId now d = (Inr newId, db @ [(newId, svc_reviewToSubmit now c r t d)])"
    using d t by (simp add: svc_submitReview_def add_def truthy_str_def truthy_num_def)
  then show "\<exists>r. svc_submitReview db newId now d = (Inr newId, db @ [(newId, r)])
         \<and> (reviewData.difficultyRating d = Some 0 \<longrightarrow> difficultyRating r = None)
         \<and> (reviewData.workloadRating d = Some 0 \<longrightarrow> workloadRating r = None)
         \<and> (reviewData.profHelpfulnessRating d = Some 0 \<longrightarrow> profHelpfulnessRating r = None)"
    by (simp add: reviewToSubmit_optional stored_optional_def)
qed

text \<open>The claim at \<open>sample\<close> with a difficulty of \<open>0\<close>.\<close>

theorem zero_optional_rating_is_absent_witness:
  "submitReview [] ''r1'' 1 (sample\<lparr>reviewData.difficultyRating := Some 0\<rparr>)
     = submitReview [] ''r1'' 1 sample \<and>
   svc_submitReview [] ''r1'' 1 (sample\<lparr>reviewData.difficultyRating := Some 0\<rparr>)
     = svc_submitReview [] ''r1'' 1 sample \<and>
   fst (submitReview [] ''r1'' 1 (sample\<lparr>reviewData.difficultyRating := Some 0\<rparr>)) = Inr ''r1''"
proof -
  let ?d = "sample\<lparr>reviewData.difficultyRating := Some 0\<rparr>"
  have e: "?d\<lparr>reviewData.difficultyRating := stored_optional (reviewData.difficultyRating ?d),
        reviewData.workloadRating := stored_optional (reviewData.workloadRating ?d),
        reviewData.profHelpfulnessRating := stored_optional (reviewData.profHelpfulnessRating ?d)\<rparr>
      = sample"
    by (simp add: sample_def stored_optional_def)
  have v: "spec_validate ?d = None"
    by (simp add: spec_validate_def sample_def trim_sample)
  note th = zero_optional_rating_is_absent[of "[]" "''r1''" 1 ?d]
  have "submitReview [] ''r1'' 1 ?d = submitReview [] ''r1'' 1 sample"
    using th by (simp only: e)
  moreover have "svc_submitReview [] ''r1'' 1 ?d = svc_submitReview [] ''r1'' 1 sample"
    using th by (simp only: e)
  moreover have "fst (submitReview [] ''r1'' 1 ?d) = Inr ''r1''"
    using th v by auto
  ultimately show ?thesis by simp
qed

section \<open>Votes and reports on the store\<close>

subsection \<open>Auxiliary facts\<close>

lemma map_of_update:
  "map_of (map (\<lambda>(k, r). if k = i then (k, f r) else (k, r)) db) j
     = (if j = i then map_option f (map_of db i) else map_of db j)"
  by (induction db) auto

lemma update_None: "get db reviewId = None \<Longrightarrow> update db reviewId f = None"
  by (simp add: update_def get_def)

lemma update_Some:
  "get db reviewId = Some r \<Longrightarrow>
     update db reviewId f = Some (map (\<lambda>(k, r). if k = reviewId then (k, f r) else (k, r)) db)"
  by (simp add: update_def get_def)

lemma get_update:
  "get db reviewId = Some r \<Longrightarrow> update db reviewId f = Some db' \<Longrightarrow> get db' reviewId = Some (f r)"
  by (auto simp add: update_def get_def map_of_update)

lemma submitReview_range:
  "submitReview db newId now d = (Inr j, db') \<Longrightarrow>
     \<exists>c r t. 1 \<le> r \<and> r \<le> 5 \<and> db' = db @ [(newId, reviewToSubmit now c r t d)]"
  by (fastforce simp add: submitReview_def add_def not_less split: option.splits if_splits)

lemma svc_submitReview_range:
  "svc_submitReview db newId now d = (Inr j, db') \<Longrightarrow>
     \<exists>c r t. 1 \<le> r \<and> r \<le> 5 \<and> db' = db @ [(newId, svc_reviewToSubmit now c r t d)]"
  by (fastforce simp add: svc_submitReview_def add_def not_less split: option.splits if_splits)

lemma submitReview_rejects: "submitReview db newId now d = (Inl e, db') \<Longrightarrow> db' = db"
  by (auto simp add: submitReview_def split: option.splits if_splits)

lemma svc_submitReview_rejects: "svc_submitReview db newId now d = (Inl e, db') \<Longrightarrow> db' = db"
  by (auto simp add: svc_submitReview_def split: option.splits if_splits)

lemma all_reviews_update:
  assumes "all_reviews P db" and "\<And>r. P r \<Longrightarrow> P (f r)" and "update db reviewId f = Some db'"
  shows "all_reviews P db'"
proof -
  have db': "db' = map (\<lambda>(k, r). if k = reviewId then (k, f r) else (k, r)) db"
    using assms(3) by (simp add: update_def split: option.splits)
  show ?thesis
    unfolding all_reviews_def db'
  proof (intro ballI)
    fix x assume "x \<in> set (map (\<lambda>(k, r). if k = reviewId then (k, f r) else (k, r)) db)"
    then obtain k r where kr: "(k, r) \<in> set db"
      "x = (if k = reviewId then (k, f r) else (k, r))" by auto
    have "P r" using kr(1) assms(1) by (auto simp add: all_reviews_def)
    then show "case x of (k, r) \<Rightarrow> P r"
      using kr(2) assms(2) by simp
  qed
qed

lemma all_reviews_run:
  assumes new: "\<And>now c r t d. 1 \<le> r \<Longrightarrow> r \<le> 5 \<Longrightarrow> P (reviewToSubmit now c r t d)"
      "\<And>now c r t d. 1 \<le> r \<Longrightarrow> r \<le> 5 \<Longrightarrow> P (svc_reviewToSubmit now c r t d)"
    and vote: "\<And>r now. P r \<Longrightarrow> P (r\<lparr>helpfulVotes := helpfulVotes r + 1,
                  totalVotes := totalVotes r + 1, updatedAt := now\<rparr>)"
    and report: "\<And>r now. P r \<Longrightarrow> P (r\<lparr>reportedCount := reportedCount r + 1, updatedAt := now\<rparr>)"
  shows "all_reviews P (run reqs)"
proof -
  have step: "all_reviews P (apply_request db req)" if inv: "all_reviews P db" for db req
  proof (cases req)
    case (Submit newId now d)
    show ?thesis
    proof (cases "submitReview db newId now d")
      case (Pair res db')
      then show ?thesis using inv Submit new(1)
        by (cases res) (auto simp add: all_reviews_def dest!: submitReview_rejects submitReview_range)
    qed
  next
    case (SvcSubmit newId now d)
    show ?thesis
    proof (cases "svc_submitReview db newId now d")
      case (Pair res db')
      then show ?thesis using inv SvcSubmit new(2)
        by (cases res)
          (auto simp add: all_reviews_def dest!: svc_submitReview_rejects svc_submitReview_range)
    qed
  next
    case (Upvote reviewId now)
    then show ?thesis using inv vote
      by (auto simp add: upvoteReview_def split: option.splits elim!: all_reviews_update[rotated 2])
  next
    case (Report reviewId now)
    then show ?thesis using inv report
      by (auto simp add: reportReview_def split: option.splits elim!: all_reviews_update[rotated 2])
  next
    case (SvcUpvote reviewId now)
    then show ?thesis using inv vote
      by (auto simp add: svc_upvoteReview_def split: option.splits
          elim!: all_reviews_update[rotated 2])
  next
    case (SvcReport reviewId now)
    then show ?thesis using inv report
      by (auto simp add: svc_reportReview_def split: option.splits
          elim!: all_reviews_update[rotated 2])
  qed
  have "all_reviews P (foldl apply_request db reqs)" if "all_reviews P db" for db
    using that by (induction reqs arbitrary: db) (simp_all add: step)
  from this[of "[]"] show ?thesis by (simp add: run_def all_reviews_def)
qed

lemma votes_inv_run: "all_reviews (\<lambda>r. helpfulVotes r \<le> totalVotes r) (run reqs)"
  by (rule all_reviews_run) (simp_all add: reviewToSubmit_def svc_reviewToSubmit_def)

lemma db1_eval: "db1 = [(''r1'', reviewToSubmit 1 ''CASCS131'' 5 ''Great course, learned a lot.'' sample)]"
  by (simp add: db1_def run_def get_def submitReview_def add_def trim_sample sample_def)

lemma run_history:
  "run history = [(''r1'', (reviewToSubmit 1 ''CASCS131'' 5 ''Great course, learned a lot.'' sample)
      \<lparr>helpfulVotes := 2, totalVotes := 2, reportedCount := 1, updatedAt := 4\<rparr>)]"
  by (simp add: history_def run_def get_def submitReview_def add_def trim_sample sample_def
      upvoteReview_def reportReview_def svc_upvoteReview_def update_def reviewToSubmit_def)

subsection \<open>Claim C8: an unknown review id\<close>

text \<open>
  Claim C8: for every review id that is not in the store, \<^verbatim>\<open>markHelpful\<close> and
  \<^verbatim>\<open>reportReview\<close> fail with \<open>NotFound\<close> and leave all stored review state unchanged.

  Against the claim as stated: the client service does not read the document first and
  replaces whatever the store throws by its own \<^verbatim>\<open>Failed to upvote review\<close> and
  \<^verbatim>\<open>Failed to report review\<close>; on an unknown id it fails with that error, not with
  \<open>NotFound\<close>.
\<close>

theorem svc_upvoteReview_unknown_id_generic_failure:
  "get db1 ''r9'' = None \<and> svc_upvoteReview db1 ''r9'' 2 = (Inl StoreFailure, db1) \<and>
   svc_reportReview db1 ''r9'' 2 = (Inl StoreFailure, db1)"
  by (simp add: db1_eval get_def svc_upvoteReview_def svc_reportReview_def update_def)

text \<open>
  Claim C8, amended. For every non-empty review id that is not in the store, the server
  handlers \<^verbatim>\<open>upvoteReview\<close> and \<^verbatim>\<open>reportReview\<close> fail with \<open>NotFound\<close>, the client's
  \<^verbatim>\<open>upvoteReview\<close> and \<^verbatim>\<open>reportReview\<close> fail with the client's own failure, and all four
  leave the store as it was: no counter is incremented and no \<^verbatim>\<open>updatedAt\<close> refreshed.
\<close>

theorem unknown_id_fails_without_change:
  assumes "reviewId \<noteq> []" and "get db reviewId = None"
  shows "upvoteReview db reviewId now = (Inl NotFound, db) \<and>
         reportReview db reviewId now = (Inl NotFound, db) \<and>
         svc_upvoteReview db reviewId now = (Inl StoreFailure, db) \<and>
         svc_reportReview db reviewId now = (Inl StoreFailure, db)"
  using assms
  by (simp add: upvoteReview_def reportReview_def svc_upvoteReview_def svc_reportReview_def
      update_None)

text \<open>The amended claim on the store \<open>db1\<close> and the id \<^verbatim>\<open>r9\<close>, which it does not hold.\<close>

theorem unknown_id_fails_without_change_witness:
  "upvoteReview db1 ''r9'' 2 = (Inl NotFound, db1) \<and>
   reportReview db1 ''r9'' 2 = (Inl NotFound, db1) \<and>
   svc_upvoteReview db1 ''r9'' 2 = (Inl StoreFailure, db1) \<and>
   svc_reportReview db1 ''r9'' 2 = (Inl StoreFailure, db1)"
proof -
  have "''r9'' \<noteq> []" by simp
  moreover have "get db1 ''r9'' = None" by (simp add: db1_eval get_def)
  ultimately show ?thesis by (rule unknown_id_fails_without_change)
qed

subsection \<open>Claim C9: the vote counters\<close>

text \<open>
  Claim C9: for every existing review a successful \<^verbatim>\<open>markHelpful\<close> increases
  \<^verbatim>\<open>helpfulVotes\<close> and \<^verbatim>\<open>totalVotes\<close> by exactly 1 each, and \<open>helpfulVotes \<le> totalVotes\<close>
  holds in every reachable state of a review: both counters start at 0, and
  \<^verbatim>\<open>reportReview\<close> touches neither.

  The reachable stores are the stores \<open>run reqs\<close> after a history of requests to the
  server and the client. An accepted submission is stored with both counters at 0. On an
  existing review the upvote of the server and of the client
  succeeds and stores the review with both counters one higher and \<^verbatim>\<open>updatedAt\<close>
  refreshed; a report succeeds and changes \<^verbatim>\<open>reportedCount\<close> and \<^verbatim>\<open>updatedAt\<close> only.
\<close>

theorem helpful_votes_step_and_invariant:
  "(\<forall>(k, r) \<in> set (run reqs). helpfulVotes r \<le> totalVotes r) \<and>
   (\<forall>j db'. submitReview db newId now d = (Inr j, db') \<or> svc_submitReview db newId now d = (Inr j, db')
      \<longrightarrow> (\<exists>r. db' = db @ [(newId, r)] \<and> helpfulVotes r = 0 \<and> totalVotes r = 0)) \<and>
   (reviewId \<noteq> [] \<and> get db reviewId = Some r \<longrightarrow>
      (\<exists>db'. upvoteReview db reviewId now = (Inr (helpfulVotes r + 1, totalVotes r + 1), db')
         \<and> get db' reviewId
             = Some (r\<lparr>helpfulVotes := helpfulVotes r + 1, totalVotes := totalVotes r + 1,
                       updatedAt := now\<rparr>)) \<and>
      (\<exists>db'. svc_upvoteReview db reviewId now = (Inr (), db')
         \<and> get db' reviewId
             = Some (r\<lparr>helpfulVotes := helpfulVotes r + 1, totalVotes := totalVotes r + 1,
                       updatedAt := now\<rparr>)) \<and>
      (\<exists>db'. reportReview db reviewId now = (Inr (), db')
         \<and> get db' reviewId = Some (r\<lparr>reportedCount := reportedCount r + 1, updatedAt := now\<rparr>)) \<and>
      (\<exists>db'. svc_reportReview db reviewId now = (Inr (), db')
         \<and> get db' reviewId = Some (r\<lparr>reportedCount := reportedCount r + 1, updatedAt := now\<rparr>)))"
proof (intro conjI impI)
  show "\<forall>(k, r) \<in> set (run reqs). helpfulVotes r \<le> totalVotes r"
    using votes_inv_run[of reqs] by (simp add: all_reviews_def)
next
  show "\<forall>j db'. submitReview db newId now d = (Inr j, db') \<or> svc_submitReview db newId now d = (Inr j, db')
      \<longrightarrow> (\<exists>r. db' = db @ [(newId, r)] \<and> helpfulVotes r = 0 \<and> totalVotes r = 0)"
    by (auto dest!: submitReview_writes svc_submitReview_writes
        simp add: reviewToSubmit_def svc_reviewToSubmit_def)
next
  assume a: "reviewId \<noteq> [] \<and> get db reviewId = Some r"
  let ?up = "\<lambda>r. r\<lparr>helpfulVotes := helpfulVotes r + 1, totalVotes := totalVotes r + 1,
                       updatedAt := now\<rparr>"
  let ?rep = "\<lambda>r. r\<lparr>reportedCount := reportedCount r + 1, updatedAt := now\<rparr>"
  obtain dbu where u: "update db reviewId ?up = Some dbu" using a by (simp add: update_Some)
  have gu: "get dbu reviewId = Some (?up r)" by (rule get_update[OF conjunct2[OF a] u])
  obtain dbr where p: "update db reviewId ?rep = Some dbr" using a by (simp add: update_Some)
  have gr: "get dbr reviewId = Some (?rep r)" by (rule get_update[OF conjunct2[OF a] p])
  show "\<exists>db'. upvoteReview db reviewId now = (Inr (helpfulVotes r + 1, totalVotes r + 1), db')
         \<and> get db' reviewId = Some (?up r)"
    using a u gu by (simp add: upvoteReview_def)
  show "\<exists>db'. svc_upvoteReview db reviewId now = (Inr (), db') \<and> get db' reviewId = Some (?up r)"
    using a u gu by (simp add: svc_upvoteReview_def)
  show "\<exists>db'. reportReview db reviewId now = (Inr (), db') \<and> get db' reviewId = Some (?rep r)"
    using a p gr by (simp add: reportReview_def)
  show "\<exists>db'. svc_reportReview db reviewId now = (Inr (), db') \<and> get db' reviewId = Some (?rep r)"
    using a p gr by (simp add: svc_reportReview_def)
qed

text \<open>
  The claim on \<open>history\<close>: after two upvotes and a report the review has 2 helpful votes
  of 2, and a third upvote returns 3 and 3.
\<close>

theorem helpful_votes_step_and_invariant_witness:
  "(case get (run history) ''r1'' of
      None \<Rightarrow> False
    | Some r \<Rightarrow> helpfulVotes r \<le> totalVotes r \<and> helpfulVotes r = 2 \<and>
        fst (upvoteReview (run history) ''r1'' 6) = Inr (3, 3))"
proof -
  obtain r where r: "get (run history) ''r1'' = Some r" "helpfulVotes r = 2" "totalVotes r = 2"
    by (simp add: run_history get_def)
  note th = helpful_votes_step_and_invariant[where reqs = history and db = "run history"
      and reviewId = "''r1''" and r = r and now = 6 and newId = "''r2''" and d = sample]
  have "(''r1'', r) \<in> set (run history)" using r(1) by (simp add: get_def map_of_SomeD)
  then have "helpfulVotes r \<le> totalVotes r" using th[THEN conjunct1] by auto
  moreover have "fst (upvoteReview (run history) ''r1'' 6) = Inr (3, 3)"
    using th[THEN conjunct2, THEN conjunct2] r by auto
  ultimately show ?thesis using r by simp
qed

section \<open>Aggregation\<close>

subsection \<open>The double nearest to a quotient\<close>

text \<open>
  The rounding error of \<open>round_pos\<close> is at most half a unit in the last place. For a
  quotient between 1 and 5 that is \<open>2^-51\<close>, which is less than the distance of a mean
  of fewer than \<open>2^40\<close> ratings from the next point halfway between two tenths, unless
  the mean is such a point.
\<close>

lemma pow2_powi: "pow2 e = 2 powi e"
  by (simp add: pow2_def power_int_def field_simps)

lemma pow2_pos: "0 < pow2 e"
  by (simp add: pow2_powi)

lemma pow2_add: "pow2 (a + b) = pow2 a * pow2 b"
  by (simp add: pow2_powi power_int_add)

lemma pow2_mono: "a \<le> b \<Longrightarrow> pow2 a \<le> pow2 b"
  by (simp add: pow2_powi power_int_increasing)

lemma rne_err: "\<bar>of_int (rne x) - x\<bar> \<le> 1 / 2"
proof -
  have "of_int \<lfloor>x\<rfloor> \<le> x" "x < of_int \<lfloor>x\<rfloor> + 1" by linarith+
  then show ?thesis
    by (auto simp add: rne_def Let_def)
qed

lemma expo_le:
  assumes "0 < x"
  shows "pow2 (expo x) \<le> x"
proof -
  obtain a b where q: "quotient_of x = (a, b)" by (cases "quotient_of x")
  have b: "0 < b" using q by (rule quotient_of_denom_pos)
  have x: "x = of_int a / of_int b" using q by (rule quotient_of_div)
  have a: "0 < a" using assms b x by (simp add: zero_less_divide_iff)
  have la: "2 ^ nat (bitlen a - 1) \<le> a" using bitlen_bounds[OF a] by simp
  have ub: "b < 2 ^ nat (bitlen b)" using bitlen_bounds[OF b] by simp
  have ba: "1 \<le> bitlen a" using a by (simp add: bitlen_alt_def)
  have bb: "0 \<le> bitlen b" by (rule bitlen_nonneg)
  have la': "(2::rat) powi (bitlen a - 1) \<le> of_int a"
  proof -
    have "(of_int (2 ^ nat (bitlen a - 1)) :: rat) \<le> of_int a" using la by (simp only: of_int_le_iff)
    then show ?thesis using ba by (simp add: power_int_def)
  qed
  have ub': "of_int b \<le> (2::rat) powi (bitlen b)"
  proof -
    have "(of_int b :: rat) \<le> of_int (2 ^ nat (bitlen b))" using ub by (simp only: of_int_le_iff less_imp_le)
    then show ?thesis using bb by (simp add: power_int_def)
  qed
  have "pow2 (bitlen a - bitlen b - 1) * of_int b \<le> of_int a"
  proof -
    have "pow2 (bitlen a - bitlen b - 1) * of_int b \<le> pow2 (bitlen a - bitlen b - 1) * 2 powi (bitlen b)"
      using ub' pow2_pos by (simp add: mult_left_mono less_imp_le)
    also have "\<dots> = 2 powi (bitlen a - 1)"
      by (simp add: pow2_powi power_int_add[symmetric])
    finally show ?thesis using la' by simp
  qed
  then have low: "pow2 (bitlen a - bitlen b - 1) \<le> x"
    using b by (simp add: x pos_le_divide_eq)
  show ?thesis
    using low by (simp add: expo_def q Let_def)
qed

lemma expo_less:
  assumes "0 < x" "x < pow2 k"
  shows "expo x < k"
proof (rule ccontr)
  assume "\<not> expo x < k"
  then have "pow2 k \<le> pow2 (expo x)" by (simp add: pow2_mono)
  with expo_le[OF assms(1)] assms(2) show False by simp
qed

lemma round_pos_err:
  assumes "0 < x" "x < pow2 k"
  shows "\<bar>round_pos x - x\<bar> \<le> pow2 (max (k - 1) (- 1022) - 53)"
proof -
  define p where "p = max (expo x) (- 1022) - 52"
  have e: "expo x \<le> k - 1" using expo_less[OF assms] by simp
  have p: "p \<le> max (k - 1) (- 1022) - 52" using e by (simp add: p_def)
  have r: "round_pos x = of_int (rne (x / pow2 p)) * pow2 p"
    by (simp add: round_pos_def p_def Let_def)
  have "round_pos x - x = (of_int (rne (x / pow2 p)) - x / pow2 p) * pow2 p"
    using pow2_pos[of p] by (simp add: r field_simps)
  then have "\<bar>round_pos x - x\<bar> = \<bar>of_int (rne (x / pow2 p)) - x / pow2 p\<bar> * pow2 p"
    using pow2_pos[of p] by (simp add: abs_mult)
  also have "\<dots> \<le> 1 / 2 * pow2 p"
    using rne_err[of "x / pow2 p"] pow2_pos[of p] by (simp add: mult_right_mono less_imp_le)
  also have "\<dots> = pow2 (p - 1)"
    using pow2_add[of "p - 1" 1] by (simp add: pow2_def[of 1])
  also have "\<dots> \<le> pow2 (max (k - 1) (- 1022) - 53)"
    using p by (simp add: pow2_mono)
  finally show ?thesis .
qed

lemma pow2_m51: "pow2 (- 51) = 1 / 2 ^ 51"
  by (simp add: pow2_def)

lemma to_double_mid:
  assumes "1 \<le> x" "x \<le> 5"
  shows "to_double x = Fin (round_pos x)" "\<bar>round_pos x - x\<bar> \<le> 1 / 2 ^ 51"
proof -
  have x8: "x < pow2 3" using assms by (simp add: pow2_def)
  have x0: "0 < x" using assms by simp
  have "\<bar>round_pos x - x\<bar> \<le> pow2 (max (3 - 1) (- 1022) - 53)"
    by (rule round_pos_err[OF x0 x8])
  then show err: "\<bar>round_pos x - x\<bar> \<le> 1 / 2 ^ 51" by (simp add: pow2_m51)
  have bnd: "x - 1 / 2 ^ 51 \<le> round_pos x" "round_pos x \<le> x + 1 / 2 ^ 51"
    using err by (simp_all only: abs_diff_le_iff)
  have y0: "0 < round_pos x" using bnd(1) assms(1) by simp
  have "round_pos x < pow2 4" using bnd(2) assms(2) by (simp add: pow2_def)
  then have "expo (round_pos x) < 4" using y0 by (rule expo_less[rotated])
  then show "to_double x = Fin (round_pos x)"
    using x0 by (simp add: to_double_def Let_def)
qed

lemma round1_quotient:
  assumes c: "0 < c" "c < 2 ^ 40" and s: "c \<le> s" "s \<le> 5 * c"
    and nt: "\<not> tenths_tie (of_int s / of_int c)"
  shows "parseFloat (toFixed1 (js_div s c)) = to_double (half_up1 (of_int s / of_int c))"
proof -
  define x :: rat where "x = of_int s / of_int c"
  define y where "y = round_pos x"
  define m where "m = \<lfloor>10 * x + 1 / 2\<rfloor>"
  have cr: "(0::rat) < of_int c" using c by simp
  have x1: "1 \<le> x" using s cr by (simp add: x_def pos_le_divide_eq)
  have x5: "x \<le> 5" using s cr
    by (simp add: x_def pos_divide_le_eq)
  have td: "to_double x = Fin y" and err: "\<bar>y - x\<bar> \<le> 1 / 2 ^ 51"
    using to_double_mid[OF x1 x5] by (simp_all add: y_def)
  have ybnd: "x - 1 / 2 ^ 51 \<le> y" "y \<le> x + 1 / 2 ^ 51"
    using err by (simp_all only: abs_diff_le_iff)
  have y0: "0 \<le> y" using ybnd(1) x1 by simp
  have y6: "y < 6" using ybnd(2) x5 by simp
  have m0: "0 \<le> m" using x1 by (simp add: m_def)
  \<comment> \<open>the exact mean is at least \<open>1 / (2 * c)\<close> away from both neighbouring integers\<close>
  have xe: "10 * x + 1 / 2 = of_int (20 * s + c) / of_int (2 * c)"
    using cr by (simp add: x_def field_simps)
  have lo: "of_int m \<le> 10 * x + 1 / 2" and hi: "10 * x + 1 / 2 < of_int m + 1"
    unfolding m_def by linarith+
  have ne: "of_int m \<noteq> 10 * x + 1 / 2"
    using nt by (simp add: tenths_tie_def x_def m_def)
  have lo_i: "m * (2 * c) < 20 * s + c"
  proof -
    have "of_int m < (of_int (20 * s + c) / of_int (2 * c) :: rat)" using lo ne xe by simp
    then have "(of_int (m * (2 * c)) :: rat) < of_int (20 * s + c)"
      using cr by (simp add: pos_less_divide_eq)
    then show ?thesis by (simp only: of_int_less_iff)
  qed
  have hi_i: "20 * s + c < (m + 1) * (2 * c)"
  proof -
    have "(of_int (20 * s + c) / of_int (2 * c) :: rat) < of_int (m + 1)" using hi xe by simp
    then have "(of_int (20 * s + c) :: rat) < of_int ((m + 1) * (2 * c))"
      using cr by (simp add: pos_divide_less_eq)
    then show ?thesis by (simp only: of_int_less_iff)
  qed
  have lo': "of_int m + 1 / of_int (2 * c) \<le> 10 * x + 1 / 2"
  proof -
    have "m * (2 * c) + 1 \<le> 20 * s + c" using lo_i by simp
    then have "(of_int (m * (2 * c) + 1) :: rat) \<le> of_int (20 * s + c)" by (simp only: of_int_le_iff)
    then have "(of_int (m * (2 * c) + 1) :: rat) / of_int (2 * c)
        \<le> of_int (20 * s + c) / of_int (2 * c)"
      using cr by (intro divide_right_mono) simp_all
    moreover have "(of_int (m * (2 * c) + 1) :: rat) / of_int (2 * c) = of_int m + 1 / of_int (2 * c)"
      using cr by (simp add: add_divide_distrib)
    ultimately show ?thesis by (simp only: xe)
  qed
  have hi': "10 * x + 1 / 2 \<le> of_int m + 1 - 1 / of_int (2 * c)"
  proof -
    have "20 * s + c + 1 \<le> (m + 1) * (2 * c)" using hi_i by simp
    then have "(of_int (20 * s + c + 1) :: rat) \<le> of_int ((m + 1) * (2 * c))" by (simp only: of_int_le_iff)
    then have "(of_int (20 * s + c + 1) :: rat) / of_int (2 * c)
        \<le> of_int ((m + 1) * (2 * c)) / of_int (2 * c)"
      using cr by (intro divide_right_mono) simp_all
    moreover have "(of_int (20 * s + c + 1) :: rat) / of_int (2 * c)
        = of_int (20 * s + c) / of_int (2 * c) + 1 / of_int (2 * c)"
      by (simp add: add_divide_distrib)
    moreover have "(of_int ((m + 1) * (2 * c)) :: rat) / of_int (2 * c) = of_int m + 1"
      using cr by simp
    ultimately show ?thesis by (simp only: xe)
  qed
  have gap: "10 * (1 / 2 ^ 51) < 1 / (of_int (2 * c) :: rat)"
  proof -
    have "(of_int c :: rat) < of_int (2 ^ 40)" using c by (simp only: of_int_less_iff)
    then have "(of_int (2 * c) :: rat) * 10 < 2 ^ 51" by simp
    then show ?thesis using cr by (simp add: field_simps)
  qed
  have "10 * x - 10 * (1 / 2 ^ 51) \<le> 10 * y" "10 * y \<le> 10 * x + 10 * (1 / 2 ^ 51)"
    using ybnd by simp_all
  then have "\<bar>10 * y - 10 * x\<bar> \<le> 10 * (1 / 2 ^ 51)"
    by (simp only: abs_diff_le_iff)
  then have near: "\<bar>10 * y - 10 * x\<bar> < 1 / of_int (2 * c)" using gap by linarith
  have fl: "\<lfloor>10 * y + 1 / 2\<rfloor> = m"
  proof (rule floor_unique)
    show "of_int m \<le> 10 * y + 1 / 2" using near lo' by (simp add: abs_less_iff)
    show "10 * y + 1 / 2 < of_int m + 1" using near hi' by (simp add: abs_less_iff)
  qed
  have "toFixed1 (js_div s c) = DecStr False (nat m)"
    using c y0 y6 td fl by (simp add: js_div_def x_def[symmetric] toFixed1_def)
  then have "parseFloat (toFixed1 (js_div s c)) = to_double (of_int m / 10)"
    using m0 by (simp add: parseFloat_def)
  then show ?thesis by (simp add: half_up1_def m_def x_def)
qed

lemma average1_half_up:
  assumes "vs \<noteq> []" and "length vs < 2 ^ 40" and "\<forall>v \<in> set vs. 1 \<le> v \<and> v \<le> 5"
    and "\<not> tenths_tie (mean vs)"
  shows "average1 vs = to_double (half_up1 (mean vs))"
proof -
  have lo: "int (length vs) \<le> sum_list vs" using assms(3)
    by (induction vs) auto
  have hi: "sum_list vs \<le> 5 * int (length vs)" using assms(3)
    by (induction vs) auto
  have c0: "0 < int (length vs)" using assms(1) by simp
  have c40: "int (length vs) < 2 ^ 40"
  proof -
    have "int (length vs) < int (2 ^ 40)" using assms(2) by (simp only: of_nat_less_iff)
    then show ?thesis by simp
  qed
  have m: "mean vs = of_int (sum_list vs) / of_int (int (length vs))"
    by (simp add: mean_def)
  have "parseFloat (toFixed1 (js_div (sum_list vs) (int (length vs))))
      = to_double (half_up1 (of_int (sum_list vs) / of_int (int (length vs))))"
    using c0 c40 lo hi assms(4) unfolding m by (rule round1_quotient)
  then show ?thesis using assms(1) by (simp only: average1_def m if_False)
qed

lemma to_double_small: "to_double 4 = Fin 4" "to_double 3 = Fin 3"
  by code_simp+



lemma quotient_23_20: "toFixed1 (js_div 23 20) = DecStr False 11"
  by code_simp

lemma tenths_differ: "parseFloat (DecStr False 11) \<noteq> parseFloat (DecStr False 12)"
  by code_simp

subsection \<open>The loops and the responses\<close>

lemma present_simps:
  "present f [] = []"
  "present f (doc # snapshot) =
     (case f (snd doc) of None \<Rightarrow> present f snapshot | Some v \<Rightarrow> v # present f snapshot)"
  by (simp add: present_def, cases doc) (simp add: present_def split: option.splits)

lemma counted_simps:
  "counted f [] = []"
  "counted f (doc # snapshot) =
     (case f (snd doc) of None \<Rightarrow> counted f snapshot
      | Some v \<Rightarrow> if v = 0 then counted f snapshot else v # counted f snapshot)"
  by (simp_all add: counted_def present_simps split: option.splits)

lemma ratings_simps:
  "ratings [] = []" "ratings (doc # snapshot) = rating (snd doc) # ratings snapshot"
  by (simp_all add: ratings_def split_beta)

lemma stats_forEach_totals:
  "totalRating (stats_forEach snapshot t) = totalRating t + sum_list (ratings snapshot)"
  "totalDifficulty (stats_forEach snapshot t)
     = totalDifficulty t + sum_list (counted difficultyRating snapshot)"
  "difficultyCount (stats_forEach snapshot t)
     = difficultyCount t + length (counted difficultyRating snapshot)"
  "totalWorkload (stats_forEach snapshot t)
     = totalWorkload t + sum_list (counted workloadRating snapshot)"
  "workloadCount (stats_forEach snapshot t)
     = workloadCount t + length (counted workloadRating snapshot)"
  "totalProfHelpfulness (stats_forEach snapshot t)
     = totalProfHelpfulness t + sum_list (counted profHelpfulnessRating snapshot)"
  "profHelpfulnessCount (stats_forEach snapshot t)
     = profHelpfulnessCount t + length (counted profHelpfulnessRating snapshot)"
  by (induction snapshot arbitrary: t;
      simp add: ratings_simps counted_simps stats_step_def Let_def split: option.splits)+

lemma length_ratings: "length (ratings snapshot) = length snapshot"
  by (simp add: ratings_def)

lemma getCourseStats_average1:
  assumes "code \<noteq> []"
  shows "getCourseStats db code =
     Inr \<lparr> courseCode = code,
           totalReviews = length (where_courseCode db code),
           averageRating = average1 (ratings (where_courseCode db code)),
           averageDifficulty = average1 (counted difficultyRating (where_courseCode db code)),
           averageWorkload = average1 (counted workloadRating (where_courseCode db code)),
           averageProfHelpfulness =
             average1 (counted profHelpfulnessRating (where_courseCode db code)) \<rparr>"
proof (cases "where_courseCode db code = []")
  case True
  then show ?thesis using assms
    by (simp add: getCourseStats_def average1_def ratings_simps counted_simps)
next
  case False
  then have r: "ratings (where_courseCode db code) \<noteq> []"
    using length_ratings[of "where_courseCode db code"] by auto
  show ?thesis using assms False r
    by (simp add: getCourseStats_def Let_def stats_forEach_totals average1_def length_ratings)
qed

lemma sum_rating_eq: "sum_rating snapshot acc = acc + sum_list (ratings snapshot)"
  by (induction snapshot arbitrary: acc) (simp_all add: ratings_simps)

lemma sum_list_insort_key:
  fixes f :: "'a \<Rightarrow> int"
  shows "sum_list (map f (insort_key g x xs)) = f x + sum_list (map f xs)"
  by (induction xs) simp_all

lemma sum_list_sort_key:
  fixes f :: "'a \<Rightarrow> int"
  shows "sum_list (map f (sort_key g xs)) = sum_list (map f xs)"
  by (induction xs) (simp_all add: sum_list_insort_key)

lemma ratings_orderBy:
  "sum_list (ratings (orderBy_helpfulVotes_desc snapshot)) = sum_list (ratings snapshot)"
  "length (orderBy_helpfulVotes_desc snapshot) = length snapshot"
  by (simp_all add: ratings_def orderBy_helpfulVotes_desc_def rev_map[symmetric]
      sum_list_sort_key)

lemma orderBy_Nil: "orderBy_helpfulVotes_desc snapshot = [] \<longleftrightarrow> snapshot = []"
  using ratings_orderBy(2)[of snapshot] by (metis length_0_conv)

lemma orderBy_empty: "orderBy_helpfulVotes_desc [] = []"
  by (simp add: orderBy_Nil)

lemma average1_zero: "parseFloat (toFixed1 (Fin 0)) = Fin 0"
  by (simp add: parseFloat_def toFixed1_def to_double_def)

lemma getReviews_average1:
  assumes "code \<noteq> []"
  shows "getReviews db code =
     Inr (orderBy_helpfulVotes_desc (where_courseCode db code),
          average1 (ratings (where_courseCode db code)), length (where_courseCode db code))"
proof (cases "where_courseCode db code = []")
  case True
  then show ?thesis using assms
    by (simp add: getReviews_def average1_def ratings_simps orderBy_empty)
next
  case False
  then have r: "ratings (where_courseCode db code) \<noteq> []"
    using length_ratings[of "where_courseCode db code"] by auto
  show ?thesis using assms False r
    by (simp add: getReviews_def Let_def orderBy_Nil sum_rating_eq ratings_orderBy average1_def
        length_ratings)
qed

lemma getReviewsByCourse_average1:
  "getReviewsByCourse db code =
     (orderBy_helpfulVotes_desc (where_courseCode db code),
      average1 (ratings (where_courseCode db code)), length (where_courseCode db code))"
proof (cases "where_courseCode db code = []")
  case True
  then show ?thesis
    by (simp add: getReviewsByCourse_def average1_def ratings_simps orderBy_empty average1_zero)
next
  case False
  then have r: "ratings (where_courseCode db code) \<noteq> []"
    using length_ratings[of "where_courseCode db code"] by auto
  show ?thesis using False r
    by (simp add: getReviewsByCourse_def Let_def sum_rating_eq ratings_orderBy average1_def
        length_ratings orderBy_Nil)
qed

lemma reviewToSubmit_sel:
  "review.courseCode (reviewToSubmit now c r t d) = c"
  "rating (reviewToSubmit now c r t d) = r"
  "review.courseCode (svc_reviewToSubmit now c r t d) = c"
  "rating (svc_reviewToSubmit now c r t d) = r"
  by (simp_all add: reviewToSubmit_def svc_reviewToSubmit_def parseInt_def)

lemma where_db1: "where_courseCode db1 ''CASMA123'' = []"
  by (simp add: db1_eval where_courseCode_def reviewToSubmit_sel)

lemma counted_present:
  "\<forall>(k, r) \<in> set snapshot. f r \<noteq> Some 0 \<Longrightarrow> counted f snapshot = present f snapshot"
  by (induction snapshot) (auto simp add: counted_simps present_simps split: option.splits)

lemma present_in_range:
  "\<forall>(k, r) \<in> set snapshot. optional_in_range (f r) \<Longrightarrow>
     \<forall>v \<in> set (present f snapshot). 1 \<le> v \<and> v \<le> 5"
  by (induction snapshot) (auto simp add: present_simps optional_in_range_def split: option.splits)

lemma length_present: "length (present f snapshot) \<le> length snapshot"
  by (induction snapshot) (auto simp add: present_simps split: option.splits)

lemma submit_submission:
  "1 \<le> r \<Longrightarrow> r \<le> 5 \<Longrightarrow>
     snd (submitReview db k now (submission r dr))
       = db @ [(k, reviewToSubmit now ''CASCS131'' r ''Great course, learned a lot.''
                     (submission r dr))]"
  "1 \<le> r \<Longrightarrow> r \<le> 5 \<Longrightarrow>
     snd (svc_submitReview db k now (submission r dr))
       = db @ [(k, svc_reviewToSubmit now ''CASCS131'' r ''Great course, learned a lot.''
                     (submission r dr))]"
  by (simp_all add: submitReview_def svc_submitReview_def submission_def sample_def trim_sample
      add_def truthy_str_def truthy_num_def)

lemma db3_eval:
  "db3 = [(''r1'', reviewToSubmit 1 ''CASCS131'' 5 ''Great course, learned a lot.''
                     (submission 5 (Some 4))),
          (''r2'', reviewToSubmit 2 ''CASCS131'' 4 ''Great course, learned a lot.''
                     (submission 4 None)),
          (''r3'', svc_reviewToSubmit 3 ''CASCS131'' 3 ''Great course, learned a lot.''
                     (submission 3 (Some 2)))]"
  by (simp add: db3_def run_def submit_submission get_def)

lemma db20_eval:
  "db20 = map (\<lambda>k. (k, reviewToSubmit 1 ''CASCS131'' 1 ''Great course, learned a lot.''
                          (submission 1 None)))
            [''a01'', ''a02'', ''a03'', ''a04'', ''a05'', ''a06'', ''a07'', ''a08'', ''a09'',
             ''a10'', ''a11'', ''a12'', ''a13'', ''a14'', ''a15'', ''a16'', ''a17'']
          @ map (\<lambda>k. (k, reviewToSubmit 2 ''CASCS131'' 2 ''Great course, learned a lot.''
                          (submission 2 None))) [''b01'', ''b02'', ''b03'']"
  by (simp add: db20_def run_def submit_submission get_def)

lemma submission_optional:
  "reviewData.difficultyRating (submission r dr) = dr"
  "reviewData.workloadRating (submission r dr) = None"
  "reviewData.profHelpfulnessRating (submission r dr) = None"
  by (simp_all add: submission_def sample_def)

lemma db3_snapshot:
  "where_courseCode db3 ''CASCS131'' = db3"
  "ratings db3 = [5, 4, 3]"
  "present difficultyRating db3 = [4, 2]"
  "present workloadRating db3 = []"
  "present profHelpfulnessRating db3 = []"
  by (simp_all add: db3_eval where_courseCode_def ratings_simps present_simps reviewToSubmit_sel
      reviewToSubmit_optional submission_optional stored_optional_def)

lemma db20_snapshot:
  "where_courseCode db20 ''CASCS131'' = db20"
  "ratings db20 = [1, 1, 1, 1, 1, 1, 1, 1, 1, 1, 1, 1, 1, 1, 1, 1, 1, 2, 2, 2]"
  by (simp_all add: db20_eval where_courseCode_def ratings_def reviewToSubmit_sel)

text \<open>
  What reaches the store through the handlers: a rating in \<open>[1,5]\<close> and no optional
  rating that is \<open>0\<close>.
\<close>

lemma stored_ratings_run:
  "all_reviews (\<lambda>r. 1 \<le> rating r \<and> rating r \<le> 5 \<and> difficultyRating r \<noteq> Some 0
      \<and> workloadRating r \<noteq> Some 0 \<and> profHelpfulnessRating r \<noteq> Some 0) (run reqs)"
  by (rule all_reviews_run)
    (simp_all add: reviewToSubmit_sel reviewToSubmit_optional stored_optional_def)

text \<open>
  So on every store that a history of requests leaves, the submetric averages of
  \<^verbatim>\<open>getCourseStats\<close> are averages over the reviews that supply the field.
\<close>

lemma getCourseStats_run:
  assumes "code \<noteq> []"
  shows "getCourseStats (run reqs) code =
     Inr \<lparr> courseCode = code,
           totalReviews = length (where_courseCode (run reqs) code),
           averageRating = average1 (ratings (where_courseCode (run reqs) code)),
           averageDifficulty =
             average1 (present difficultyRating (where_courseCode (run reqs) code)),
           averageWorkload = average1 (present workloadRating (where_courseCode (run reqs) code)),
           averageProfHelpfulness =
             average1 (present profHelpfulnessRating (where_courseCode (run reqs) code)) \<rparr>"
proof -
  have sub: "set (where_courseCode (run reqs) code) \<subseteq> set (run reqs)"
    by (auto simp add: where_courseCode_def)
  have c: "counted f (where_courseCode (run reqs) code) = present f (where_courseCode (run reqs) code)"
    if "\<forall>(k, r) \<in> set (run reqs). f r \<noteq> Some 0" for f
    using that sub by (intro counted_present) auto
  have "counted difficultyRating (where_courseCode (run reqs) code)
      = present difficultyRating (where_courseCode (run reqs) code)"
    using stored_ratings_run[of reqs] by (intro c) (auto simp add: all_reviews_def)
  moreover have "counted workloadRating (where_courseCode (run reqs) code)
      = present workloadRating (where_courseCode (run reqs) code)"
    using stored_ratings_run[of reqs] by (intro c) (auto simp add: all_reviews_def)
  moreover have "counted profHelpfulnessRating (where_courseCode (run reqs) code)
      = present profHelpfulnessRating (where_courseCode (run reqs) code)"
    using stored_ratings_run[of reqs] by (intro c) (auto simp add: all_reviews_def)
  ultimately show ?thesis
    using getCourseStats_average1[OF assms, of "run reqs"] by simp
qed

subsection \<open>Claim C7: the empty set of reviews\<close>

text \<open>
  Claim C7: when the set of reviews for a course is empty, aggregation returns
  \<open>averageRating = 0\<close>, \<open>totalReviews = 0\<close> and every submetric average \<open>= 0\<close>, never
  \<^verbatim>\<open>NaN\<close> and never \<^verbatim>\<open>null\<close>. This holds for \<^verbatim>\<open>getCourseStats\<close> and \<^verbatim>\<open>getReviews\<close> of the
  server (which need a course code) and for \<^verbatim>\<open>getReviewsByCourse\<close> of the client.
\<close>

theorem empty_course_all_zero:
  assumes "where_courseCode db code = []"
  shows "(code \<noteq> [] \<longrightarrow>
            getCourseStats db code =
              Inr \<lparr> courseCode = code, totalReviews = 0, averageRating = Fin 0,
                    averageDifficulty = Fin 0, averageWorkload = Fin 0,
                    averageProfHelpfulness = Fin 0 \<rparr> \<and>
            getReviews db code = Inr ([], Fin 0, 0)) \<and>
         getReviewsByCourse db code = ([], Fin 0, 0)"
  using assms
  by (simp add: getCourseStats_def getReviews_def getReviewsByCourse_def orderBy_empty
      average1_zero)

text \<open>The claim on \<open>db1\<close>, which has no review of the course \<^verbatim>\<open>CASMA123\<close>.\<close>

theorem empty_course_all_zero_witness:
  "getCourseStats db1 ''CASMA123'' =
     Inr \<lparr> courseCode = ''CASMA123'', totalReviews = 0, averageRating = Fin 0,
           averageDifficulty = Fin 0, averageWorkload = Fin 0, averageProfHelpfulness = Fin 0 \<rparr> \<and>
   getReviews db1 ''CASMA123'' = Inr ([], Fin 0, 0) \<and>
   getReviewsByCourse db1 ''CASMA123'' = ([], Fin 0, 0)"
  using empty_course_all_zero[OF where_db1] by simp

subsection \<open>Claim C5: the submetric averages\<close>



subsection \<open>Claim C6: rounding to one decimal place\<close>

text \<open>
  Claim C6: for every non-empty set of reviews the overall average and each submetric
  average are rounded to one decimal place by round-half-up fixed-point rounding, not by
  binary floating-point rounding, identically for all averages.

  Against the claim as stated: the mean of seventeen ratings of 1 and three of 2 is
  \<open>23 / 20 = 1.15\<close>, which round-half-up takes to \<open>1.2\<close>. The handler divides in binary
  floating point; the double nearest to \<open>1.15\<close> is below it, and \<^verbatim>\<open>toFixed(1)\<close> of that
  double is \<^verbatim>\<open>"1.1"\<close>.
\<close>

theorem averageRating_tie_rounds_down:
  "map_sum id averageRating (getCourseStats db20 ''CASCS131'') = Inr (parseFloat (DecStr False 11)) \<and>
   half_up1 (mean (ratings (where_courseCode db20 ''CASCS131''))) = 12 / 10 \<and>
   parseFloat (DecStr False 11) \<noteq> parseFloat (DecStr False 12)"
proof -
  have "map_sum id averageRating (getCourseStats db20 ''CASCS131'')
      = Inr (average1 (ratings db20))"
    by (simp add: getCourseStats_average1 db20_snapshot(1))
  moreover have "average1 (ratings db20) = parseFloat (DecStr False 11)"
    by (simp add: db20_snapshot(2) average1_def quotient_23_20)
  moreover have "half_up1 (mean (ratings (where_courseCode db20 ''CASCS131''))) = 12 / 10"
    by (simp add: db20_snapshot half_up1_def mean_def)
  ultimately show ?thesis using tenths_differ by simp
qed

text \<open>
  Claim C6, amended. For a course with fewer than \<open>2^40\<close> reviews whose ratings are in
  \<open>[1,5]\<close> and whose optional ratings are absent or in \<open>[1,5]\<close>, every average over at
  least one value (the overall average of \<^verbatim>\<open>getCourseStats\<close>, \<^verbatim>\<open>getReviews\<close> and
  \<^verbatim>\<open>getReviewsByCourse\<close>, and the three submetric averages of \<^verbatim>\<open>getCourseStats\<close>) is the
  double of the decimal that round-half-up fixed-point rounding gives the exact mean,
  whenever the exact mean is not exactly halfway between two neighbouring tenths.
\<close>

theorem averages_round_half_up_off_ties:
  assumes "code \<noteq> []" and "length (where_courseCode db code) < 2 ^ 40"
    and "\<forall>(k, r) \<in> set (where_courseCode db code).
           1 \<le> rating r \<and> rating r \<le> 5 \<and> optional_in_range (difficultyRating r)
           \<and> optional_in_range (workloadRating r) \<and> optional_in_range (profHelpfulnessRating r)"
  shows
    "(where_courseCode db code \<noteq> [] \<and> \<not> tenths_tie (mean (ratings (where_courseCode db code)))
        \<longrightarrow> map_sum id averageRating (getCourseStats db code)
              = Inr (to_double (half_up1 (mean (ratings (where_courseCode db code)))))
          \<and> map_sum id (fst \<circ> snd) (getReviews db code)
              = Inr (to_double (half_up1 (mean (ratings (where_courseCode db code)))))
          \<and> fst (snd (getReviewsByCourse db code))
              = to_double (half_up1 (mean (ratings (where_courseCode db code))))) \<and>
     (present difficultyRating (where_courseCode db code) \<noteq> []
        \<and> \<not> tenths_tie (mean (present difficultyRating (where_courseCode db code)))
        \<longrightarrow> map_sum id averageDifficulty (getCourseStats db code)
              = Inr (to_double (half_up1 (mean (present difficultyRating (where_courseCode db code)))))) \<and>
     (present workloadRating (where_courseCode db code) \<noteq> []
        \<and> \<not> tenths_tie (mean (present workloadRating (where_courseCode db code)))
        \<longrightarrow> map_sum id averageWorkload (getCourseStats db code)
              = Inr (to_double (half_up1 (mean (present workloadRating (where_courseCode db code)))))) \<and>
     (present profHelpfulnessRating (where_courseCode db code) \<noteq> []
        \<and> \<not> tenths_tie (mean (present profHelpfulnessRating (where_courseCode db code)))
        \<longrightarrow> map_sum id averageProfHelpfulness (getCourseStats db code)
              = Inr (to_double (half_up1
                  (mean (present profHelpfulnessRating (where_courseCode db code))))))"
proof -
  let ?snap = "where_courseCode db code"
  have nz: "\<forall>(k, r) \<in> set ?snap. difficultyRating r \<noteq> Some 0 \<and> workloadRating r \<noteq> Some 0
           \<and> profHelpfulnessRating r \<noteq> Some 0"
    using assms(3) by (auto simp add: optional_in_range_def)
  have cnt: "counted difficultyRating ?snap = present difficultyRating ?snap"
    "counted workloadRating ?snap = present workloadRating ?snap"
    "counted profHelpfulnessRating ?snap = present profHelpfulnessRating ?snap"
    using nz by (auto intro!: counted_present)
  have sub: "vs \<noteq> [] \<Longrightarrow> \<not> tenths_tie (mean vs) \<Longrightarrow> average1 vs = to_double (half_up1 (mean vs))"
    if "length vs \<le> length ?snap" "\<forall>v \<in> set vs. 1 \<le> v \<and> v \<le> 5" for vs
    using that assms(2) by (intro average1_half_up) auto
  have r: "\<forall>v \<in> set (ratings ?snap). 1 \<le> v \<and> v \<le> 5"
    using assms(3) by (auto simp add: ratings_def)
  have d: "\<forall>v \<in> set (present difficultyRating ?snap). 1 \<le> v \<and> v \<le> 5"
    using assms(3) by (intro present_in_range) auto
  have w: "\<forall>v \<in> set (present workloadRating ?snap). 1 \<le> v \<and> v \<le> 5"
    using assms(3) by (intro present_in_range) auto
  have p: "\<forall>v \<in> set (present profHelpfulnessRating ?snap). 1 \<le> v \<and> v \<le> 5"
    using assms(3) by (intro present_in_range) auto
  have rn: "ratings ?snap \<noteq> []" if "?snap \<noteq> []"
    using that by (simp add: ratings_def)
  have R: "average1 (ratings ?snap) = to_double (half_up1 (mean (ratings ?snap)))"
    if "?snap \<noteq> []" "\<not> tenths_tie (mean (ratings ?snap))"
    using sub[of "ratings ?snap"] r rn that by (simp add: length_ratings)
  show ?thesis
    using R sub[OF length_present d] sub[OF length_present w] sub[OF length_present p]
    by (simp add: getCourseStats_average1[OF assms(1)] getReviews_average1[OF assms(1)]
        getReviewsByCourse_average1 cnt)
qed

text \<open>The amended claim on \<open>db3\<close>: the means 4 and 3 are no halfway points.\<close>

theorem averages_round_half_up_off_ties_witness:
  "map_sum id averageRating (getCourseStats db3 ''CASCS131'') = Inr (Fin 4) \<and>
   map_sum id (fst \<circ> snd) (getReviews db3 ''CASCS131'') = Inr (Fin 4) \<and>
   fst (snd (getReviewsByCourse db3 ''CASCS131'')) = Fin 4 \<and>
   map_sum id averageDifficulty (getCourseStats db3 ''CASCS131'') = Inr (Fin 3)"
proof -
  have c: "''CASCS131'' \<noteq> []" by simp
  have n: "length (where_courseCode db3 ''CASCS131'') < 2 ^ 40"
    by (simp add: db3_snapshot) (simp add: db3_eval)
  have h: "\<forall>(k, r) \<in> set (where_courseCode db3 ''CASCS131'').
           1 \<le> rating r \<and> rating r \<le> 5 \<and> optional_in_range (difficultyRating r)
           \<and> optional_in_range (workloadRating r) \<and> optional_in_range (profHelpfulnessRating r)"
    unfolding db3_snapshot
    by (simp add: db3_eval reviewToSubmit_sel reviewToSubmit_optional submission_optional
        stored_optional_def optional_in_range_def)
  have m: "mean [5, 4, 3] = 4" "mean [4, 2] = 3" by (simp_all add: mean_def)
  have t: "\<not> tenths_tie 4" "\<not> tenths_tie 3" "half_up1 4 = 4" "half_up1 3 = 3"
    by code_simp+
  have e: "db3 \<noteq> []" by (simp add: db3_eval)
  show ?thesis
    using averages_round_half_up_off_ties[OF c n h] e
    by (simp add: db3_snapshot m t to_double_small)
qed

end
